theory Spec2Isabelle
  imports Complex_Main "HOL-Library.Word"
begin

section \<open>TinyG temperature controller and dispatch loop\<close>

text \<open>
  A shallow embedding of \<^verbatim>\<open>firmware/temperature/tinyg_tc.c\<close> (heater state machine, PID,
  temperature sensor, PWM, tick handler, dispatch loop) and of the dispatch loop of
  \<^verbatim>\<open>firmware/tinyg/controller.cpp\<close>.

  Conventions of the embedding:
  \<^item> the four static structs are records; the functions take the state and return it;
  \<^item> \<^verbatim>\<open>double\<close> values are real numbers where every value of a run stays finite,
    so that arithmetic is exact; rounding is outside the model. Where a value can be
    infinite or NaN the model keeps it as such, see \<open>cdouble\<close>: the frequency that
    \<^verbatim>\<open>pwm_off\<close> divides by zero, and the PID, which has a second model
    \<open>pid_calculate_fp\<close> with the overflow, the infinities and the NaN of the target;
  \<^item> \<^verbatim>\<open>uint8_t\<close> and \<^verbatim>\<open>int8_t\<close> counters are 8-bit words; the status and fault
    \<^emph>\<open>codes\<close> are bytes too, their enumerators being constants of the header;
  \<^item> the constants of \<^verbatim>\<open>tinyg_tc.h\<close>, which is not part of the sources at hand, are
    the fields of the record \<open>config\<close>, a parameter of every function that uses one;
  \<^item> the analog-to-digital converter is a function \<open>adc\<close> from the number of the
    conversion to the 10-bit value it returns, and the state counts the conversions.
\<close>

subsection \<open>Status codes and enumerations\<close>

text \<open>
  Status codes of \<^verbatim>\<open>kinen_core.h\<close> (\<^verbatim>\<open>SC_OK\<close>, \<^verbatim>\<open>SC_EAGAIN\<close>, \<^verbatim>\<open>SC_NOOP\<close>) and of
  \<^verbatim>\<open>tinyg.h\<close> (\<^verbatim>\<open>STAT_OK\<close>, \<^verbatim>\<open>STAT_EAGAIN\<close>, \<^verbatim>\<open>STAT_NOOP\<close>); every other code is an
  error code, kept with its number.
\<close>

datatype stat = STAT_OK | STAT_EAGAIN | STAT_NOOP | STAT_ERR nat

abbreviation SC_OK :: stat where "SC_OK \<equiv> STAT_OK"
abbreviation SC_EAGAIN :: stat where "SC_EAGAIN \<equiv> STAT_EAGAIN"
abbreviation SC_NOOP :: stat where "SC_NOOP \<equiv> STAT_NOOP"

text \<open>
  Modelled from the spec: the enum declarations of \<^verbatim>\<open>tinyg_tc.h\<close> are missing. The
  enumerators are the ones the code names; the heater state that \<^verbatim>\<open>memset\<close> zero-fills
  is \<open>HEATER_OFF\<close> (the heater is "created at initialization in Off"). The state
  bytes are typed by their enumerators: every value the program stores in one is an
  enumerator (\<^verbatim>\<open>heater_off\<close> is only called with \<^verbatim>\<open>HEATER_SHUTDOWN\<close>).
\<close>

datatype tcHeaterState = HEATER_OFF | HEATER_HEATING | HEATER_AT_TARGET | HEATER_SHUTDOWN

datatype tcPIDState = PID_OFF | PID_ON

datatype tcSensorState = SENSOR_OFF | SENSOR_HAS_NO_DATA | SENSOR_HAS_DATA | SENSOR_SHUTDOWN

subsection \<open>Doubles that may be infinite\<close>

text \<open>
  \<^verbatim>\<open>device.pwm_freq = F_CPU / PWM_PRESCALE / freq\<close> is computed with \<^verbatim>\<open>freq = 0\<close> by
  \<^verbatim>\<open>pwm_off\<close>. The quotient is then an infinity (or NaN), which the comparisons that
  follow see as such.
\<close>

datatype cdouble = Fin real | PInf | NInf | NaN

definition cdiv :: "real \<Rightarrow> real \<Rightarrow> cdouble" where
  "cdiv a b = (if b \<noteq> 0 then Fin (a / b)
               else if 0 < a then PInf else if a < 0 then NInf else NaN)"

fun clt :: "cdouble \<Rightarrow> real \<Rightarrow> bool" where
  "clt (Fin x) r = (x < r)"
| "clt NInf r = True"
| "clt PInf r = False"
| "clt NaN r = False"

fun cge :: "cdouble \<Rightarrow> real \<Rightarrow> bool" where
  "cge (Fin x) r = (r \<le> x)"
| "cge PInf r = True"
| "cge NInf r = False"
| "cge NaN r = False"

subsection \<open>Constants of the header\<close>

record config =
  HEATER_AMBIENT_TIMEOUT :: real
  HEATER_REGULATION_TIMEOUT :: real
  HEATER_AMBIENT_TEMPERATURE :: real
  HEATER_OVERHEAT_TEMPERATURE :: real
  HEATER_TICK_SECONDS :: real
  HEATER_AMBIENT_TIMED_OUT :: "8 word"
  HEATER_REGULATION_TIMED_OUT :: "8 word"
  PID_DT :: real
  PID_Kp :: real
  PID_Ki :: real
  PID_Kd :: real
  PID_MAX_OUTPUT :: real
  PID_MIN_OUTPUT :: real
  PID_EPSILON :: real
  SENSOR_SAMPLES_PER_READING :: "8 word"
  SENSOR_RETRIES :: "8 word"
  SENSOR_VARIANCE_RANGE :: real
  SENSOR_DISCONNECTED_TEMPERATURE :: real
  SENSOR_NO_POWER_TEMPERATURE :: real
  SENSOR_SLOPE :: real
  SENSOR_OFFSET :: real
  ABSOLUTE_ZERO :: real
  SURFACE_OF_THE_SUN :: real
  HOTTER_THAN_THE_SUN :: real
  SENSOR_IS_READING :: "8 word"
  SENSOR_READING_COMPLETE :: "8 word"
  SENSOR_READING_FAILED_BAD_READINGS :: "8 word"
  SENSOR_READING_FAILED_DISCONNECTED :: "8 word"
  SENSOR_READING_FAILED_NO_POWER :: "8 word"
  PWM_FREQUENCY :: real
  PWM_CLOCK :: real \<comment> \<open>the constant expression \<^verbatim>\<open>F_CPU / PWM_PRESCALE\<close>\<close>
  PWM_MIN_RES :: "8 word"
  PWM_MAX_RES :: "8 word"
  CAST_OUT_OF_RANGE :: "cdouble \<Rightarrow> 8 word"
    \<comment> \<open>what the target yields for \<^verbatim>\<open>(uint8_t)x\<close> when \<open>x\<close> is not in range (undefined in C)\<close>
  DBL_MAX :: real \<comment> \<open>the largest finite \<^verbatim>\<open>double\<close> of the target (\<^verbatim>\<open>float.h\<close>)\<close>

subsection \<open>Arithmetic of doubles with overflow, infinities and NaN\<close>

text \<open>
  The operations of the target on \<open>cdouble\<close>: a result beyond \<^verbatim>\<open>DBL_MAX\<close> overflows to
  an infinity, an infinity minus itself and zero times an infinity are NaN, and every
  comparison with a NaN is false. Inside the finite range the result is the exact one
  (no rounding), and zero has no sign: a division by zero takes it as positive.
\<close>

definition cfin :: "config \<Rightarrow> real \<Rightarrow> cdouble" where
  "cfin c x = (if DBL_MAX c < x then PInf else if x < - DBL_MAX c then NInf else Fin x)"

fun cneg :: "cdouble \<Rightarrow> cdouble" where
  "cneg (Fin a) = Fin (- a)"
| "cneg PInf = NInf"
| "cneg NInf = PInf"
| "cneg NaN = NaN"

fun cadd :: "config \<Rightarrow> cdouble \<Rightarrow> cdouble \<Rightarrow> cdouble" where
  "cadd c (Fin a) (Fin b) = cfin c (a + b)"
| "cadd c NaN y = NaN"
| "cadd c x NaN = NaN"
| "cadd c PInf NInf = NaN"
| "cadd c NInf PInf = NaN"
| "cadd c PInf y = PInf"
| "cadd c NInf y = NInf"
| "cadd c (Fin a) y = y"

definition csub :: "config \<Rightarrow> cdouble \<Rightarrow> cdouble \<Rightarrow> cdouble" where
  "csub c x y = cadd c x (cneg y)"

fun cmul :: "config \<Rightarrow> cdouble \<Rightarrow> cdouble \<Rightarrow> cdouble" where
  "cmul c (Fin a) (Fin b) = cfin c (a * b)"
| "cmul c NaN y = NaN"
| "cmul c x NaN = NaN"
| "cmul c (Fin a) y = (if a = 0 then NaN else if 0 < a then y else cneg y)"
| "cmul c x (Fin b) = (if b = 0 then NaN else if 0 < b then x else cneg x)"
| "cmul c x y = (if x = y then PInf else NInf)"

fun cquot :: "config \<Rightarrow> cdouble \<Rightarrow> cdouble \<Rightarrow> cdouble" where
  "cquot c (Fin a) (Fin b) =
     (if b \<noteq> 0 then cfin c (a / b)
      else if 0 < a then PInf else if a < 0 then NInf else NaN)"
| "cquot c NaN y = NaN"
| "cquot c x NaN = NaN"
| "cquot c (Fin a) y = Fin 0"
| "cquot c x (Fin b) = (if 0 \<le> b then x else cneg x)"
| "cquot c x y = NaN"

fun cabs :: "cdouble \<Rightarrow> cdouble" where
  "cabs (Fin a) = Fin \<bar>a\<bar>"
| "cabs NaN = NaN"
| "cabs x = PInf"

fun cgt :: "cdouble \<Rightarrow> cdouble \<Rightarrow> bool" where
  "cgt (Fin a) (Fin b) = (b < a)"
| "cgt NaN y = False"
| "cgt x NaN = False"
| "cgt NInf y = False"
| "cgt x PInf = False"
| "cgt x y = True"

subsection \<open>The static data\<close>

record Device =
  tick_flag :: bool
  tick_100ms_count :: "8 word"
  tick_1sec_count :: "8 word"
  pwm_freq :: cdouble
  OCR2A :: "8 word" \<comment> \<open>timer 2 register: PWM frequency (TOP value)\<close>
  OCR2B :: "8 word" \<comment> \<open>timer 2 register: PWM duty cycle\<close>

record Heater =
  heater_state :: tcHeaterState
  heater_code :: "8 word"
  heater_temperature :: real
  heater_setpoint :: real
  heater_regulation_timer :: real
  heater_ambient_timeout :: real
  heater_regulation_timeout :: real
  heater_ambient_temperature :: real
  heater_overheat_temperature :: real

record PIDstruct =
  pid_state :: tcPIDState
  pid_code :: "8 word"
  pid_output :: real
  pid_output_max :: real
  pid_output_min :: real
  pid_error :: real
  pid_prev_error :: real
  pid_integral :: real
  pid_derivative :: real
  pid_dt :: real
  pid_Kp :: real
  pid_Ki :: real
  pid_Kd :: real
  pid_temperature :: real
  pid_setpoint :: real

record TemperatureSensor =
  sensor_state :: tcSensorState
  sensor_code :: "8 word"
  sensor_samples_per_reading :: "8 word"
  sensor_samples :: "8 word" \<comment> \<open>\<^verbatim>\<open>int8_t\<close>, read with \<open>sint\<close>\<close>
  sensor_retries :: "8 word"
  sensor_temperature :: real
  sensor_previous_temp :: real
  sensor_accumulator :: real
  sensor_variance :: real
  sensor_disconnect_temperature :: real
  sensor_no_power_temperature :: real

record tc =
  device :: Device
  heater :: Heater
  pid :: PIDstruct
  sensor :: TemperatureSensor
  adc_count :: nat \<comment> \<open>number of conversions the ADC has made\<close>

subsection \<open>Heater PID functions\<close>

definition pid_init :: "config \<Rightarrow> PIDstruct" where
  "pid_init c =
     \<lparr> pid_state = PID_ON, pid_code = 0, pid_output = 0,
       pid_output_max = PID_MAX_OUTPUT c, pid_output_min = PID_MIN_OUTPUT c,
       pid_error = 0, pid_prev_error = 0, pid_integral = 0, pid_derivative = 0,
       pid_dt = PID_DT c, pid_Kp = PID_Kp c, pid_Ki = PID_Ki c, pid_Kd = PID_Kd c,
       pid_temperature = 0, pid_setpoint = 0 \<rparr>"

definition pid_reset :: "PIDstruct \<Rightarrow> PIDstruct" where
  "pid_reset p = p\<lparr>pid_integral := 0, pid_prev_error := 0\<rparr>"

definition pid_calculate :: "config \<Rightarrow> real \<Rightarrow> real \<Rightarrow> PIDstruct \<Rightarrow> real \<times> PIDstruct" where
  "pid_calculate c setpoint temperature p =
     (if pid_state p = PID_OFF then (0, p)
      else
        let p1 = p\<lparr>pid_setpoint := setpoint, pid_temperature := temperature,
                   pid_error := setpoint - temperature\<rparr>;
            p2 = (if \<bar>pid_error p1\<bar> > PID_EPSILON c
                  then p1\<lparr>pid_integral := pid_integral p1 + pid_error p1 * pid_dt p1\<rparr>
                  else p1);
            p3 = p2\<lparr>pid_derivative := (pid_error p2 - pid_prev_error p2) / pid_dt p2\<rparr>;
            p4 = p3\<lparr>pid_output := pid_Kp p3 * pid_error p3 + pid_Ki p3 * pid_integral p3
                                    + pid_Kd p3 * pid_derivative p3\<rparr>;
            p5 = (if pid_output p4 > pid_output_max p4
                  then p4\<lparr>pid_output := pid_output_max p4\<rparr>
                  else if pid_output p4 < pid_output_min p4
                  then p4\<lparr>pid_output := pid_output_min p4\<rparr>
                  else p4);
            p6 = p5\<lparr>pid_prev_error := pid_error p5\<rparr>
        in (pid_output p6, p6))"

text \<open>
  \<open>pid_calculate\<close> above computes with real numbers: it is the function on the runs in
  which no value leaves the finite range (lemma \<open>pid_calculate_fp_agrees\<close> below). The
  same function with the arithmetic of the target follows, on a copy of the struct whose
  \<^verbatim>\<open>double\<close> fields may be infinite or NaN. \<^verbatim>\<open>pid.output < pid.output_min\<close> reads
  \<open>cgt (fp_output_min p) (fp_output p)\<close>.
\<close>

record PIDstruct_fp =
  fp_state :: tcPIDState
  fp_code :: "8 word"
  fp_output :: cdouble
  fp_output_max :: cdouble
  fp_output_min :: cdouble
  fp_error :: cdouble
  fp_prev_error :: cdouble
  fp_integral :: cdouble
  fp_derivative :: cdouble
  fp_dt :: cdouble
  fp_Kp :: cdouble
  fp_Ki :: cdouble
  fp_Kd :: cdouble
  fp_temperature :: cdouble
  fp_setpoint :: cdouble


definition pid_calculate_fp ::
  "config \<Rightarrow> cdouble \<Rightarrow> cdouble \<Rightarrow> PIDstruct_fp \<Rightarrow> cdouble \<times> PIDstruct_fp" where
  "pid_calculate_fp c setpoint temperature p =
     (if fp_state p = PID_OFF then (Fin 0, p)
      else
        let p1 = p\<lparr>fp_setpoint := setpoint, fp_temperature := temperature,
                   fp_error := csub c setpoint temperature\<rparr>;
            p2 = (if cgt (cabs (fp_error p1)) (Fin (PID_EPSILON c))
                  then p1\<lparr>fp_integral :=
                           cadd c (fp_integral p1) (cmul c (fp_error p1) (fp_dt p1))\<rparr>
                  else p1);
            p3 = p2\<lparr>fp_derivative :=
                      cquot c (csub c (fp_error p2) (fp_prev_error p2)) (fp_dt p2)\<rparr>;
            p4 = p3\<lparr>fp_output :=
                      cadd c (cadd c (cmul c (fp_Kp p3) (fp_error p3))
                                     (cmul c (fp_Ki p3) (fp_integral p3)))
                             (cmul c (fp_Kd p3) (fp_derivative p3))\<rparr>;
            p5 = (if cgt (fp_output p4) (fp_output_max p4)
                  then p4\<lparr>fp_output := fp_output_max p4\<rparr>
                  else if cgt (fp_output_min p4) (fp_output p4)
                  then p4\<lparr>fp_output := fp_output_min p4\<rparr>
                  else p4);
            p6 = p5\<lparr>fp_prev_error := fp_error p5\<rparr>
        in (fp_output p6, p6))"

definition fp_of :: "PIDstruct \<Rightarrow> PIDstruct_fp" where
  "fp_of p =
     \<lparr> fp_state = pid_state p, fp_code = pid_code p, fp_output = Fin (pid_output p),
       fp_output_max = Fin (pid_output_max p), fp_output_min = Fin (pid_output_min p),
       fp_error = Fin (pid_error p), fp_prev_error = Fin (pid_prev_error p),
       fp_integral = Fin (pid_integral p), fp_derivative = Fin (pid_derivative p),
       fp_dt = Fin (pid_dt p), fp_Kp = Fin (pid_Kp p), fp_Ki = Fin (pid_Ki p),
       fp_Kd = Fin (pid_Kd p), fp_temperature = Fin (pid_temperature p),
       fp_setpoint = Fin (pid_setpoint p) \<rparr>"

subsection \<open>ADC and temperature sensor\<close>

text \<open>
  \<^verbatim>\<open>adc_read\<close> starts a conversion and returns the register \<^verbatim>\<open>ADC\<close>. Its wait loop
  \<^verbatim>\<open>while (ADCSRA && (1<<ADIF) == 0);\<close> has a condition that is always false, so the
  function never waits. The value comes from outside the program.
\<close>

definition adc_read :: "(nat \<Rightarrow> 16 word) \<Rightarrow> tc \<Rightarrow> 16 word \<times> tc" where
  "adc_read adc s = (adc (adc_count s), s\<lparr>adc_count := Suc (adc_count s)\<rparr>)"

definition SAMPLE :: "config \<Rightarrow> (nat \<Rightarrow> 16 word) \<Rightarrow> tc \<Rightarrow> real \<times> tc" where
  "SAMPLE c adc s =
     (let (v, s1) = adc_read adc s in (real (unat v) * SENSOR_SLOPE c + SENSOR_OFFSET c, s1))"

definition sensor_init :: "config \<Rightarrow> TemperatureSensor" where
  "sensor_init c =
     \<lparr> sensor_state = SENSOR_HAS_NO_DATA, sensor_code = 0,
       sensor_samples_per_reading = SENSOR_SAMPLES_PER_READING c,
       sensor_samples = 0, sensor_retries = SENSOR_RETRIES c,
       sensor_temperature = ABSOLUTE_ZERO c, sensor_previous_temp = 0,
       sensor_accumulator = 0, sensor_variance = SENSOR_VARIANCE_RANGE c,
       sensor_disconnect_temperature = SENSOR_DISCONNECTED_TEMPERATURE c,
       sensor_no_power_temperature = SENSOR_NO_POWER_TEMPERATURE c \<rparr>"

definition sensor_on :: "tc \<Rightarrow> tc" where
  "sensor_on s = s" \<comment> \<open>"no action actually occurs"\<close>

definition sensor_off :: "tc \<Rightarrow> tc" where
  "sensor_off s = s\<lparr>sensor := (sensor s)\<lparr>sensor_state := SENSOR_OFF\<rparr>\<rparr>"

definition sensor_get_temperature :: "config \<Rightarrow> tc \<Rightarrow> real" where
  "sensor_get_temperature c s =
     (if sensor_state (sensor s) = SENSOR_HAS_DATA then sensor_temperature (sensor s)
      else SURFACE_OF_THE_SUN c)"

definition sensor_get_state :: "tc \<Rightarrow> tcSensorState" where
  "sensor_get_state s = sensor_state (sensor s)"

definition sensor_get_code :: "tc \<Rightarrow> 8 word" where
  "sensor_get_code s = sensor_code (sensor s)"

definition sensor_start_temperature_reading :: "tc \<Rightarrow> tc" where
  "sensor_start_temperature_reading s = s\<lparr>sensor := (sensor s)\<lparr>sensor_samples := 0\<rparr>\<rparr>"

text \<open>
  The retry loop of \<^verbatim>\<open>_sensor_sample\<close>,
  \<^verbatim>\<open>for (uint8_t i=sensor.retries; i>0; --i)\<close>, with \<open>i\<close> the number of iterations left.
\<close>

fun sensor_sample_loop :: "config \<Rightarrow> (nat \<Rightarrow> 16 word) \<Rightarrow> nat \<Rightarrow> real \<Rightarrow> tc \<Rightarrow> real \<times> tc" where
  "sensor_sample_loop c adc 0 sample s = (HOTTER_THAN_THE_SUN c, s)"
| "sensor_sample_loop c adc (Suc i) sample s =
     (if \<bar>sample - sensor_previous_temp (sensor s)\<bar> < sensor_variance (sensor s)
      then (sample, s\<lparr>sensor := (sensor s)\<lparr>sensor_previous_temp := sample\<rparr>\<rparr>)
      else let (sample', s') = SAMPLE c adc s in sensor_sample_loop c adc i sample' s')"

definition sensor_sample :: "config \<Rightarrow> (nat \<Rightarrow> 16 word) \<Rightarrow> bool \<Rightarrow> tc \<Rightarrow> real \<times> tc" where
  "sensor_sample c adc new_period s =
     (let (sample, s1) = SAMPLE c adc s in
      if new_period
      then (sample, s1\<lparr>sensor := (sensor s1)\<lparr>sensor_previous_temp := sample\<rparr>\<rparr>)
      else sensor_sample_loop c adc (unat (sensor_retries (sensor s1))) sample s1)"

text \<open>
  \<^verbatim>\<open>(++sensor.samples) < sensor.samples_per_reading\<close> compares an \<^verbatim>\<open>int8_t\<close> with a
  \<^verbatim>\<open>uint8_t\<close>, both promoted to \<^verbatim>\<open>int\<close>; the increment wraps from 127 to -128.
\<close>

definition sensor_callback :: "config \<Rightarrow> (nat \<Rightarrow> 16 word) \<Rightarrow> tc \<Rightarrow> tc" where
  "sensor_callback c adc s =
     (if sensor_state (sensor s) = SENSOR_OFF \<or> sensor_state (sensor s) = SENSOR_SHUTDOWN
      then s
      else if sensor_code (sensor s) = SENSOR_READING_COMPLETE c then s
      else
        let new_period = (sensor_samples (sensor s) = 0);
            s1 = (if new_period
                  then s\<lparr>sensor := (sensor s)\<lparr>sensor_accumulator := 0,
                                                sensor_code := SENSOR_IS_READING c\<rparr>\<rparr>
                  else s);
            (temperature, s2) = sensor_sample c adc new_period s1
        in
          if temperature > SURFACE_OF_THE_SUN c
          then s2\<lparr>sensor := (sensor s2)\<lparr>sensor_code := SENSOR_READING_FAILED_BAD_READINGS c,
                                          sensor_state := SENSOR_SHUTDOWN\<rparr>\<rparr>
          else
            let s3 = s2\<lparr>sensor := (sensor s2)
                         \<lparr>sensor_accumulator := sensor_accumulator (sensor s2) + temperature\<rparr>\<rparr>;
                s4 = s3\<lparr>sensor := (sensor s3)\<lparr>sensor_samples := sensor_samples (sensor s3) + 1\<rparr>\<rparr>
            in
              if sint (sensor_samples (sensor s4)) < uint (sensor_samples_per_reading (sensor s4))
              then s4
              else
                let s5 = s4\<lparr>sensor := (sensor s4)
                             \<lparr>sensor_temperature := sensor_accumulator (sensor s4)
                                  / real_of_int (sint (sensor_samples (sensor s4)))\<rparr>\<rparr>
                in
                  if sensor_temperature (sensor s5) > SENSOR_DISCONNECTED_TEMPERATURE c
                  then s5\<lparr>sensor := (sensor s5)
                            \<lparr>sensor_code := SENSOR_READING_FAILED_DISCONNECTED c,
                             sensor_state := SENSOR_HAS_NO_DATA\<rparr>\<rparr>
                  else if sensor_temperature (sensor s5) < SENSOR_NO_POWER_TEMPERATURE c
                  then s5\<lparr>sensor := (sensor s5)
                            \<lparr>sensor_code := SENSOR_READING_FAILED_NO_POWER c,
                             sensor_state := SENSOR_HAS_NO_DATA\<rparr>\<rparr>
                  else s5\<lparr>sensor := (sensor s5)
                            \<lparr>sensor_code := SENSOR_READING_COMPLETE c,
                             sensor_state := SENSOR_HAS_DATA\<rparr>\<rparr>)"

subsection \<open>PWM\<close>

text \<open>
  \<^verbatim>\<open>(uint8_t)x\<close> truncates towards zero when the result fits; otherwise the behaviour is
  undefined and the value is the parameter \<open>CAST_OUT_OF_RANGE\<close>.
\<close>

definition cast_uint8 :: "config \<Rightarrow> cdouble \<Rightarrow> 8 word" where
  "cast_uint8 c x =
     (case x of
        Fin r \<Rightarrow> (if -1 < r \<and> r < 256
                  then word_of_int (if 0 \<le> r then \<lfloor>r\<rfloor> else \<lceil>r\<rceil>)
                  else CAST_OUT_OF_RANGE c x)
      | _ \<Rightarrow> CAST_OUT_OF_RANGE c x)"

text \<open>
  Of \<^verbatim>\<open>pwm_init\<close> the model keeps the two compare registers and the stored frequency;
  the mode and prescaler registers are written once with constants and never read.
\<close>

definition pwm_init :: "tc \<Rightarrow> tc" where
  "pwm_init s = s\<lparr>device := (device s)\<lparr>OCR2A := 0, OCR2B := 0, pwm_freq := Fin 0\<rparr>\<rparr>"

definition pwm_set_freq :: "config \<Rightarrow> real \<Rightarrow> tc \<Rightarrow> tc" where
  "pwm_set_freq c freq s =
     (let d = (device s)\<lparr>pwm_freq := cdiv (PWM_CLOCK c) freq\<rparr> in
      s\<lparr>device :=
          (if clt (pwm_freq d) (real (unat (PWM_MIN_RES c))) then d\<lparr>OCR2A := PWM_MIN_RES c\<rparr>
           else if cge (pwm_freq d) (real (unat (PWM_MAX_RES c))) then d\<lparr>OCR2A := PWM_MAX_RES c\<rparr>
           else d\<lparr>OCR2A := cast_uint8 c (pwm_freq d)\<rparr>)\<rparr>)"

definition pwm_set_duty :: "config \<Rightarrow> real \<Rightarrow> tc \<Rightarrow> tc" where
  "pwm_set_duty c duty s =
     (let d = device s;
          d1 = (if duty \<le> 0 then d\<lparr>OCR2B := 255\<rparr>
                else if duty > 100 then d\<lparr>OCR2B := 0\<rparr>
                else d\<lparr>OCR2B := cast_uint8 c (Fin (real (unat (OCR2A d)) * (1 - duty / 100)))\<rparr>)
      in s\<lparr>device := d1\<lparr>OCR2A := cast_uint8 c (pwm_freq d1)\<rparr>\<rparr>)"

definition pwm_on :: "config \<Rightarrow> real \<Rightarrow> real \<Rightarrow> tc \<Rightarrow> tc" where
  "pwm_on c freq duty s = pwm_set_duty c duty (pwm_set_freq c freq (pwm_init s))"

definition pwm_off :: "config \<Rightarrow> tc \<Rightarrow> tc" where
  "pwm_off c s = pwm_on c 0 0 s"

subsection \<open>Heater\<close>

definition heater_init :: "config \<Rightarrow> tc \<Rightarrow> tc" where
  "heater_init c s =
     s\<lparr> heater :=
          \<lparr> heater_state = HEATER_OFF, heater_code = 0, heater_temperature = 0,
            heater_setpoint = 0, heater_regulation_timer = 0,
            heater_ambient_timeout = HEATER_AMBIENT_TIMEOUT c,
            heater_regulation_timeout = HEATER_REGULATION_TIMEOUT c,
            heater_ambient_temperature = HEATER_AMBIENT_TEMPERATURE c,
            heater_overheat_temperature = HEATER_OVERHEAT_TEMPERATURE c \<rparr>,
        sensor := sensor_init c,
        pid := pid_init c \<rparr>"

definition heater_on :: "config \<Rightarrow> real \<Rightarrow> tc \<Rightarrow> tc" where
  "heater_on c setpoint s =
     (if heater_state (heater s) = HEATER_HEATING \<or> heater_state (heater s) = HEATER_AT_TARGET
      then s
      else
        let s1 = sensor_on s;
            s2 = s1\<lparr>pid := pid_reset (pid s1)\<rparr>;
            s3 = pwm_on c (PWM_FREQUENCY c) 0 s2
        in s3\<lparr>heater := (heater s3)\<lparr>heater_setpoint := setpoint,
                                      heater_state := HEATER_HEATING\<rparr>\<rparr>)"

definition heater_off :: "config \<Rightarrow> tcHeaterState \<Rightarrow> 8 word \<Rightarrow> tc \<Rightarrow> tc" where
  "heater_off c state code s =
     (let s1 = pwm_off c s;
          s2 = sensor_off s1
      in s2\<lparr>heater := (heater s2)\<lparr>heater_state := state, heater_code := code\<rparr>\<rparr>)"

definition heater_callback :: "config \<Rightarrow> tc \<Rightarrow> tc" where
  "heater_callback c s =
     (if heater_state (heater s) = HEATER_OFF \<or> heater_state (heater s) = HEATER_SHUTDOWN
      then s
      else
        let s1 = sensor_start_temperature_reading s in
        if sensor_get_state s1 \<noteq> SENSOR_HAS_DATA then s1
        else
          let s2 = s1\<lparr>heater := (heater s1)\<lparr>heater_temperature := sensor_get_temperature c s1\<rparr>\<rparr>;
              (duty_cycle, p) =
                 pid_calculate c (heater_setpoint (heater s2)) (heater_temperature (heater s2))
                   (pid s2);
              s3 = pwm_set_duty c duty_cycle (s2\<lparr>pid := p\<rparr>)
          in
            if heater_state (heater s3) = HEATER_HEATING
            then
              let s4 = s3\<lparr>heater := (heater s3)
                           \<lparr>heater_regulation_timer :=
                              heater_regulation_timer (heater s3) + HEATER_TICK_SECONDS c\<rparr>\<rparr>
              in
                if heater_temperature (heater s4) < heater_ambient_temperature (heater s4)
                   \<and> heater_regulation_timer (heater s4) > heater_ambient_timeout (heater s4)
                then heater_off c HEATER_SHUTDOWN (HEATER_AMBIENT_TIMED_OUT c) s4
                else if heater_temperature (heater s4) < heater_setpoint (heater s4)
                   \<and> heater_regulation_timer (heater s4) > heater_regulation_timeout (heater s4)
                then heater_off c HEATER_SHUTDOWN (HEATER_REGULATION_TIMED_OUT c) s4
                else s4
            else s3)"

subsection \<open>Tick handler\<close>

definition tick_isr :: "tc \<Rightarrow> tc" where
  "tick_isr s = s\<lparr>device := (device s)\<lparr>tick_flag := True\<rparr>\<rparr>"

definition tick_10ms :: "config \<Rightarrow> (nat \<Rightarrow> 16 word) \<Rightarrow> tc \<Rightarrow> tc" where
  "tick_10ms c adc s = sensor_callback c adc s"

definition tick_100ms :: "config \<Rightarrow> tc \<Rightarrow> tc" where
  "tick_100ms c s = heater_callback c s"

definition tick_1sec :: "tc \<Rightarrow> tc" where
  "tick_1sec s = s"

definition tick_callback :: "config \<Rightarrow> (nat \<Rightarrow> 16 word) \<Rightarrow> tc \<Rightarrow> stat \<times> tc" where
  "tick_callback c adc s =
     (if \<not> tick_flag (device s) then (SC_NOOP, s)
      else
        let s1 = s\<lparr>device := (device s)\<lparr>tick_flag := False\<rparr>\<rparr>;
            s2 = tick_10ms c adc s1;
            s3 = s2\<lparr>device := (device s2)\<lparr>tick_100ms_count := tick_100ms_count (device s2) - 1\<rparr>\<rparr>
        in
          if tick_100ms_count (device s3) \<noteq> 0 then (SC_OK, s3)
          else
            let s4 = s3\<lparr>device := (device s3)\<lparr>tick_100ms_count := 10\<rparr>\<rparr>;
                s5 = tick_100ms c s4;
                s6 = s5\<lparr>device := (device s5)\<lparr>tick_1sec_count := tick_1sec_count (device s5) - 1\<rparr>\<rparr>
            in
              if tick_1sec_count (device s6) \<noteq> 0 then (SC_OK, s6)
              else
                let s7 = s6\<lparr>device := (device s6)\<lparr>tick_1sec_count := 10\<rparr>\<rparr>
                in (SC_OK, tick_1sec s7))"

subsection \<open>Dispatch loops\<close>

text \<open>
  \<^verbatim>\<open>#define DISPATCH(func) if (func == STAT_EAGAIN) return;\<close>
  A task takes the state and returns its status code with the new state. A pass over a
  list of \<^verbatim>\<open>DISPATCH\<close> lines calls the tasks from the top and returns at the first one
  that answers \<^verbatim>\<open>STAT_EAGAIN\<close>. Besides the state, the model returns the status codes
  of the tasks that were called, in the order of the calls: this ghost value is what
  the properties of the loop are stated on.
\<close>

type_synonym 's task = "'s \<Rightarrow> stat \<times> 's"

fun run_pass :: "'s task list \<Rightarrow> 's \<Rightarrow> stat list \<times> 's" where
  "run_pass [] s = ([], s)"
| "run_pass (func # rest) s =
     (let (r, s1) = func s in
      if r = STAT_EAGAIN then ([r], s1)
      else let (rs, s2) = run_pass rest s1 in (r # rs, s2))"

text \<open>The state in which task number \<open>i\<close> of the list is called, if the pass gets there.\<close>

definition state_before :: "'s task list \<Rightarrow> 's \<Rightarrow> nat \<Rightarrow> 's" where
  "state_before fs s i = fold (\<lambda>f t. snd (f t)) (take i fs) s"

text \<open>
  \<^verbatim>\<open>_controller\<close> of the temperature controller. \<^verbatim>\<open>kinen_callback\<close> belongs to the
  Kinen library and is a parameter.
\<close>

definition controller :: "config \<Rightarrow> (nat \<Rightarrow> 16 word) \<Rightarrow> tc task \<Rightarrow> tc \<Rightarrow> stat list \<times> tc" where
  "controller c adc kinen_callback = run_pass [kinen_callback, tick_callback c adc]"

text \<open>
  \<^verbatim>\<open>_controller_HSM\<close> of the motion controller. The tasks of other modules are fields
  of \<open>hsm_env\<close>, as are the functions of other modules that the tasks of
  \<^verbatim>\<open>controller.cpp\<close> call.
\<close>

record 's hsm_env =
  hw_hard_reset_handler :: "'s task"
  hw_bootloader_handler :: "'s task"
  machine_is_shutdown :: "'s \<Rightarrow> bool" \<comment> \<open>\<^verbatim>\<open>cm_get_machine_state() == MACHINE_SHUTDOWN\<close>\<close>
  led_alarm_blink :: "'s \<Rightarrow> 's" \<comment> \<open>toggle the indicator LED when its timer has run out\<close>
  limit_switch_handler :: "'s task"
  cm_feedhold_sequencing_callback :: "'s task"
  mp_plan_hold_callback :: "'s task"
  system_assertions :: "'s task"
  st_motor_power_callback :: "'s task"
  sr_status_report_callback :: "'s task"
  qr_queue_report_callback :: "'s task"
  cm_arc_callback :: "'s task"
  cm_homing_callback :: "'s task"
  cm_jogging_callback :: "'s task"
  cm_probe_callback :: "'s task"
  planner_lacks_headroom :: "'s \<Rightarrow> bool"
    \<comment> \<open>\<^verbatim>\<open>mp_get_planner_buffers_available() < PLANNER_BUFFER_HEADROOM\<close>\<close>
  tx_backed_up :: "'s \<Rightarrow> bool"
    \<comment> \<open>\<^verbatim>\<open>xio_get_tx_bufcount_usart(...) >= XOFF_TX_LO_WATER_MARK\<close>\<close>
  set_baud_callback :: "'s task"
  command_dispatch :: "'s task"

definition shutdown_idler :: "'s hsm_env \<Rightarrow> 's task" where
  "shutdown_idler e s =
     (if \<not> machine_is_shutdown e s then (STAT_OK, s)
      else (STAT_EAGAIN, led_alarm_blink e s))"

definition normal_idler :: "'s task" where
  "normal_idler s = (STAT_OK, s)"

definition sync_to_tx_buffer :: "'s hsm_env \<Rightarrow> 's task" where
  "sync_to_tx_buffer e s = (if tx_backed_up e s then (STAT_EAGAIN, s) else (STAT_OK, s))"

definition sync_to_planner :: "'s hsm_env \<Rightarrow> 's task" where
  "sync_to_planner e s = (if planner_lacks_headroom e s then (STAT_EAGAIN, s) else (STAT_OK, s))"

definition hsm_tasks :: "'s hsm_env \<Rightarrow> 's task list" where
  "hsm_tasks e =
     [ hw_hard_reset_handler e,
       hw_bootloader_handler e,
       shutdown_idler e,
       limit_switch_handler e,
       cm_feedhold_sequencing_callback e,
       mp_plan_hold_callback e,
       system_assertions e,
       st_motor_power_callback e,
       sr_status_report_callback e,
       qr_queue_report_callback e,
       cm_arc_callback e,
       cm_homing_callback e,
       cm_jogging_callback e,
       cm_probe_callback e,
       sync_to_planner e,
       sync_to_tx_buffer e,
       set_baud_callback e,
       command_dispatch e,
       normal_idler ]"

definition controller_HSM :: "'s hsm_env \<Rightarrow> 's \<Rightarrow> stat list \<times> 's" where
  "controller_HSM e = run_pass (hsm_tasks e)"

subsection \<open>Sequences of heater operations\<close>

datatype heater_op =
    OpInit \<comment> \<open>\<^verbatim>\<open>heater_init()\<close>\<close>
  | OpOn real \<comment> \<open>\<^verbatim>\<open>heater_on(setpoint)\<close>\<close>
  | OpOff tcHeaterState "8 word" \<comment> \<open>\<^verbatim>\<open>heater_off(state, code)\<close>\<close>
  | OpPoll \<comment> \<open>\<^verbatim>\<open>heater_callback()\<close>\<close>
  | OpSample \<comment> \<open>\<^verbatim>\<open>sensor_callback()\<close>\<close>

fun heater_step :: "config \<Rightarrow> (nat \<Rightarrow> 16 word) \<Rightarrow> heater_op \<Rightarrow> tc \<Rightarrow> tc" where
  "heater_step c adc OpInit s = heater_init c s"
| "heater_step c adc (OpOn setpoint) s = heater_on c setpoint s"
| "heater_step c adc (OpOff state code) s = heater_off c state code s"
| "heater_step c adc OpPoll s = heater_callback c s"
| "heater_step c adc OpSample s = sensor_callback c adc s"

definition run_ops :: "config \<Rightarrow> (nat \<Rightarrow> 16 word) \<Rightarrow> heater_op list \<Rightarrow> tc \<Rightarrow> tc" where
  "run_ops c adc ops s = fold (heater_step c adc) ops s"

text \<open>\<open>pid_calculate\<close> called \<open>n\<close> times with the same arguments.\<close>

fun pid_repeat :: "config \<Rightarrow> real \<Rightarrow> real \<Rightarrow> nat \<Rightarrow> PIDstruct \<Rightarrow> PIDstruct" where
  "pid_repeat c setpoint temperature 0 p = p"
| "pid_repeat c setpoint temperature (Suc n) p =
     pid_repeat c setpoint temperature n (snd (pid_calculate c setpoint temperature p))"

subsection \<open>A configuration and a start state to run the model on\<close>

text \<open>
  The header with the values of the constants is missing; these values only serve to
  evaluate the functions on concrete inputs. \<^verbatim>\<open>DBL_MAX\<close> is that of the AVR target,
  whose \<^verbatim>\<open>double\<close> has 32 bits.
\<close>

definition test_config :: config where
  "test_config =
     \<lparr> HEATER_AMBIENT_TIMEOUT = 90, HEATER_REGULATION_TIMEOUT = 300,
       HEATER_AMBIENT_TEMPERATURE = 40, HEATER_OVERHEAT_TEMPERATURE = 300,
       HEATER_TICK_SECONDS = 1 / 10,
       HEATER_AMBIENT_TIMED_OUT = 1, HEATER_REGULATION_TIMED_OUT = 2,
       PID_DT = 1 / 10, PID_Kp = 5, PID_Ki = 1 / 10, PID_Kd = 1 / 2,
       PID_MAX_OUTPUT = 100, PID_MIN_OUTPUT = 0, PID_EPSILON = 1 / 10,
       SENSOR_SAMPLES_PER_READING = 2, SENSOR_RETRIES = 3,
       SENSOR_VARIANCE_RANGE = 20,
       SENSOR_DISCONNECTED_TEMPERATURE = 400, SENSOR_NO_POWER_TEMPERATURE = -2,
       SENSOR_SLOPE = 1 / 2, SENSOR_OFFSET = -4,
       ABSOLUTE_ZERO = -273, SURFACE_OF_THE_SUN = 5505, HOTTER_THAN_THE_SUN = 10000,
       SENSOR_IS_READING = 1, SENSOR_READING_COMPLETE = 2,
       SENSOR_READING_FAILED_BAD_READINGS = 3, SENSOR_READING_FAILED_DISCONNECTED = 4,
       SENSOR_READING_FAILED_NO_POWER = 5,
       PWM_FREQUENCY = 1000, PWM_CLOCK = 125000, PWM_MIN_RES = 20, PWM_MAX_RES = 255,
       CAST_OUT_OF_RANGE = (\<lambda>x. 0),
       DBL_MAX = (2 ^ 24 - 1) * 2 ^ 104 \<rparr>"

definition power_on_state :: tc where
  "power_on_state =
     \<lparr> device = \<lparr> tick_flag = False, tick_100ms_count = 10, tick_1sec_count = 10,
                  pwm_freq = Fin 0, OCR2A = 0, OCR2B = 0 \<rparr>,
       heater = \<lparr> heater_state = HEATER_OFF, heater_code = 0, heater_temperature = 0,
                  heater_setpoint = 0, heater_regulation_timer = 0,
                  heater_ambient_timeout = 0, heater_regulation_timeout = 0,
                  heater_ambient_temperature = 0, heater_overheat_temperature = 0 \<rparr>,
       pid = \<lparr> pid_state = PID_OFF, pid_code = 0, pid_output = 0, pid_output_max = 0,
               pid_output_min = 0, pid_error = 0, pid_prev_error = 0, pid_integral = 0,
               pid_derivative = 0, pid_dt = 0, pid_Kp = 0, pid_Ki = 0, pid_Kd = 0,
               pid_temperature = 0, pid_setpoint = 0 \<rparr>,
       sensor = \<lparr> sensor_state = SENSOR_OFF, sensor_code = 0, sensor_samples_per_reading = 0,
                  sensor_samples = 0, sensor_retries = 0, sensor_temperature = 0,
                  sensor_previous_temp = 0, sensor_accumulator = 0, sensor_variance = 0,
                  sensor_disconnect_temperature = 0, sensor_no_power_temperature = 0 \<rparr>,
       adc_count = 0 \<rparr>"

subsection \<open>Auxiliary notions for the statements\<close>

text \<open>The status code that task number \<open>i\<close> returns when the pass calls it.\<close>

definition task_status :: "'s task list \<Rightarrow> 's \<Rightarrow> nat \<Rightarrow> stat" where
  "task_status fs s i = fst ((fs ! i) (state_before fs s i))"

text \<open>
  Three tasks over a flag: the middle one is not finished while the flag is set, and
  clears it.
\<close>

definition three_tasks :: "bool task list" where
  "three_tasks = [(\<lambda>s. (STAT_OK, s)), (\<lambda>s. (if s then STAT_EAGAIN else STAT_NOOP, False)),
                  (\<lambda>s. (STAT_OK, s))]"

text \<open>Operations that only poll: the heater and the sensor callbacks.\<close>

fun is_poll :: "heater_op \<Rightarrow> bool" where
  "is_poll OpPoll = True"
| "is_poll OpSample = True"
| "is_poll _ = False"

text \<open>Calls \<^verbatim>\<open>heater_off(HEATER_AT_TARGET, code)\<close>.\<close>

fun sets_at_target :: "heater_op \<Rightarrow> bool" where
  "sets_at_target (OpOff state code) = (state = HEATER_AT_TARGET)"
| "sets_at_target _ = False"

text \<open>A heater that was initialised, turned on and shut down.\<close>

definition shutdown_state :: tc where
  "shutdown_state =
     run_ops test_config (\<lambda>k. 0) [OpInit, OpOn 140, OpOff HEATER_SHUTDOWN 1] power_on_state"

text \<open>A heater that is off and whose PID holds values of an earlier cycle.\<close>

definition stale_pid_state :: tc where
  "stale_pid_state =
     (heater_init test_config power_on_state)
       \<lparr>pid := (pid_init test_config)\<lparr>pid_integral := 7, pid_prev_error := 3\<rparr>\<rparr>"

text \<open>The PWM after \<^verbatim>\<open>pwm_init(); pwm_set_freq(1000)\<close>.\<close>

definition pwm_test_state :: tc where
  "pwm_test_state = pwm_set_freq test_config 1000 (pwm_init power_on_state)"

text \<open>
  A heater that was turned on, got a first reading (two samples of 46 degrees), ran one
  heater cycle on it and was turned off again.
\<close>

definition restart_state :: tc where
  "restart_state =
     run_ops test_config (\<lambda>k. 100)
       [OpInit, OpOn 140, OpSample, OpSample, OpPoll, OpOff HEATER_OFF 0] power_on_state"

text \<open>
  A converter whose first sample reads 196 degrees and all later ones 496 degrees: the
  second sample of the reading is out of variance and so is every retry.
\<close>

definition glitch_adc :: "nat \<Rightarrow> 16 word" where
  "glitch_adc k = (if k = 0 then 400 else 1000)"

definition sensor_fault_state :: tc where
  "sensor_fault_state =
     run_ops test_config glitch_adc [OpInit, OpOn 140, OpSample, OpSample] power_on_state"

text \<open>
  The main loop \<^verbatim>\<open>while (true) { _controller(); }\<close> with the timer interrupt: a run is
  a sequence of passes and interrupts.
\<close>

datatype event = Interrupt | Pass

definition kinen_idle :: "tc task" where
  "kinen_idle s = (SC_NOOP, s)"

fun main_loop_event :: "config \<Rightarrow> (nat \<Rightarrow> 16 word) \<Rightarrow> tc task \<Rightarrow> event \<Rightarrow> tc \<Rightarrow> tc" where
  "main_loop_event c adc kinen_callback Interrupt s = tick_isr s"
| "main_loop_event c adc kinen_callback Pass s = snd (controller c adc kinen_callback s)"

text \<open>
  A converter whose first two samples read 46 and 48 degrees and all later ones 56; a
  sensor that has completed its first reading on it.
\<close>

definition two_readings_adc :: "nat \<Rightarrow> 16 word" where
  "two_readings_adc k = (if k = 0 then 100 else if k = 1 then 104 else 120)"

definition first_reading_state :: tc where
  "first_reading_state =
     run_ops test_config two_readings_adc [OpInit, OpSample, OpSample] power_on_state"

text \<open>The temperature that conversion number \<open>k\<close> of the ADC stands for.\<close>

definition sample_value :: "config \<Rightarrow> (nat \<Rightarrow> 16 word) \<Rightarrow> nat \<Rightarrow> real" where
  "sample_value c adc k = real (unat (adc k)) * SENSOR_SLOPE c + SENSOR_OFFSET c"

text \<open>The sensor is neither off nor shut down, and its reading is not marked complete.\<close>

definition sensor_active :: "config \<Rightarrow> tc \<Rightarrow> bool" where
  "sensor_active c s \<longleftrightarrow>
     sensor_state (sensor s) \<noteq> SENSOR_OFF \<and> sensor_state (sensor s) \<noteq> SENSOR_SHUTDOWN
     \<and> sensor_code (sensor s) \<noteq> SENSOR_READING_COMPLETE c"

text \<open>The code and the state that \<open>sensor_callback\<close> gives a completed reading.\<close>

definition classify_code :: "config \<Rightarrow> real \<Rightarrow> 8 word" where
  "classify_code c t =
     (if t > SENSOR_DISCONNECTED_TEMPERATURE c then SENSOR_READING_FAILED_DISCONNECTED c
      else if t < SENSOR_NO_POWER_TEMPERATURE c then SENSOR_READING_FAILED_NO_POWER c
      else SENSOR_READING_COMPLETE c)"

definition classify_state :: "config \<Rightarrow> real \<Rightarrow> tcSensorState" where
  "classify_state c t =
     (if t > SENSOR_DISCONNECTED_TEMPERATURE c \<or> t < SENSOR_NO_POWER_TEMPERATURE c
      then SENSOR_HAS_NO_DATA else SENSOR_HAS_DATA)"

text \<open>
  The state after \<open>j\<close> samples of a reading were accepted, each on the first attempt, when
  the reading is not yet complete.
\<close>

definition partial_reading :: "config \<Rightarrow> (nat \<Rightarrow> 16 word) \<Rightarrow> tc \<Rightarrow> nat \<Rightarrow> tc" where
  "partial_reading c adc s j =
     s\<lparr>adc_count := adc_count s + j,
       sensor := (sensor s)
         \<lparr>sensor_accumulator := (\<Sum>i<j. sample_value c adc (adc_count s + i)),
          sensor_code := SENSOR_IS_READING c,
          sensor_previous_temp := sample_value c adc (adc_count s + j - 1),
          sensor_samples := of_nat j\<rparr>\<rparr>"

text \<open>
  The next \<open>n\<close> conversions are not above \<^verbatim>\<open>SURFACE_OF_THE_SUN\<close> and each but the first
  is within the variance range of the one before.
\<close>

definition steady_samples :: "config \<Rightarrow> (nat \<Rightarrow> 16 word) \<Rightarrow> tc \<Rightarrow> nat \<Rightarrow> bool" where
  "steady_samples c adc s n \<longleftrightarrow>
     (\<forall>i<n. sample_value c adc (adc_count s + i) \<le> SURFACE_OF_THE_SUN c) \<and>
     (\<forall>i<n. 0 < i \<longrightarrow>
        \<bar>sample_value c adc (adc_count s + i) - sample_value c adc (adc_count s + i - 1)\<bar>
          < sensor_variance (sensor s))"



text \<open>A value within the finite range of the target.\<close>

definition fits :: "config \<Rightarrow> real \<Rightarrow> bool" where
  "fits c x \<longleftrightarrow> \<bar>x\<bar> \<le> DBL_MAX c"

text \<open>No value that \<open>pid_calculate\<close> computes in this call leaves the finite range.\<close>

definition pid_no_overflow :: "config \<Rightarrow> real \<Rightarrow> real \<Rightarrow> PIDstruct \<Rightarrow> bool" where
  "pid_no_overflow c sp t p \<longleftrightarrow>
     (let e = sp - t;
          i = (if \<bar>e\<bar> > PID_EPSILON c then pid_integral p + e * pid_dt p else pid_integral p);
          d = (e - pid_prev_error p) / pid_dt p
      in pid_dt p \<noteq> 0 \<and> fits c e \<and> fits c (e * pid_dt p) \<and> fits c i
         \<and> fits c (e - pid_prev_error p) \<and> fits c d
         \<and> fits c (pid_Kp p * e) \<and> fits c (pid_Ki p * i) \<and> fits c (pid_Kd p * d)
         \<and> fits c (pid_Kp p * e + pid_Ki p * i)
         \<and> fits c (pid_Kp p * e + pid_Ki p * i + pid_Kd p * d))"

text \<open>
  The operations as they are used: \<^verbatim>\<open>heater_off\<close> with \<^verbatim>\<open>HEATER_SHUTDOWN\<close>, as the
  sources call it, or with \<^verbatim>\<open>HEATER_OFF\<close>, as the specification's \<open>turn_off\<close> is
  used besides.
\<close>

fun heater_op_in_use :: "heater_op \<Rightarrow> bool" where
  "heater_op_in_use (OpOff state code) = (state = HEATER_OFF \<or> state = HEATER_SHUTDOWN)"
| "heater_op_in_use _ = True"

section \<open>Properties\<close>

subsection \<open>The dispatch loop\<close>

lemma state_before_0: "state_before fs s 0 = s"
  by (simp add: state_before_def)

lemma state_before_Cons_Suc: "state_before (f # fs) s (Suc i) = state_before fs (snd (f s)) i"
  by (simp add: state_before_def)

lemma task_status_Cons_0: "task_status (f # fs) s 0 = fst (f s)"
  by (simp add: task_status_def state_before_0)

lemma task_status_Cons_Suc: "task_status (f # fs) s (Suc i) = task_status fs (snd (f s)) i"
  by (simp add: task_status_def state_before_Cons_Suc)

lemma run_pass_all:
  "(\<And>i. i < length fs \<Longrightarrow> task_status fs s i \<noteq> STAT_EAGAIN) \<Longrightarrow>
     run_pass fs s = (map (task_status fs s) [0..<length fs], state_before fs s (length fs))"
proof (induction fs arbitrary: s)
  case Nil
  show ?case by (simp add: state_before_0)
next
  case (Cons f fs)
  have hd: "fst (f s) \<noteq> STAT_EAGAIN"
    using Cons.prems [of 0] by (simp add: task_status_Cons_0)
  have tl: "task_status fs (snd (f s)) i \<noteq> STAT_EAGAIN" if "i < length fs" for i
    using Cons.prems [of "Suc i"] that by (simp add: task_status_Cons_Suc)
  have ih: "run_pass fs (snd (f s))
      = (map (task_status fs (snd (f s))) [0..<length fs], state_before fs (snd (f s)) (length fs))"
    by (rule Cons.IH) (rule tl)
  show ?case
    using hd ih
    by (simp add: split_beta Let_def map_upt_Suc task_status_Cons_0 task_status_Cons_Suc
        state_before_Cons_Suc del: upt_Suc)
qed

lemma run_pass_blocked:
  "k < length fs \<Longrightarrow> (\<And>i. i < k \<Longrightarrow> task_status fs s i \<noteq> STAT_EAGAIN) \<Longrightarrow>
   task_status fs s k = STAT_EAGAIN \<Longrightarrow>
     run_pass fs s = (map (task_status fs s) [0..<Suc k], state_before fs s (Suc k))"
proof (induction fs arbitrary: s k)
  case Nil
  then show ?case by simp
next
  case (Cons f fs)
  show ?case
  proof (cases k)
    case 0
    with Cons.prems(3) show ?thesis
      by (simp add: split_beta task_status_Cons_0 state_before_Cons_Suc state_before_0)
  next
    case (Suc j)
    have hd: "fst (f s) \<noteq> STAT_EAGAIN"
      using Cons.prems(2) [of 0] Suc by (simp add: task_status_Cons_0)
    have tl: "task_status fs (snd (f s)) i \<noteq> STAT_EAGAIN" if "i < j" for i
      using Cons.prems(2) [of "Suc i"] that Suc by (simp add: task_status_Cons_Suc)
    have blk: "task_status fs (snd (f s)) j = STAT_EAGAIN"
      using Cons.prems(3) Suc by (simp add: task_status_Cons_Suc)
    have len: "j < length fs" using Cons.prems(1) Suc by simp
    have ih: "run_pass fs (snd (f s))
        = (map (task_status fs (snd (f s))) [0..<Suc j], state_before fs (snd (f s)) (Suc j))"
      using Cons.IH [OF len tl blk] by simp
    show ?thesis
      using hd ih unfolding Suc
      by (simp add: split_beta Let_def map_upt_Suc [of _ "Suc j"] task_status_Cons_0 task_status_Cons_Suc
          state_before_Cons_Suc del: upt_Suc)
  qed
qed

text \<open>
  Claim C1. In a pass over any list of tasks: when task \<open>k\<close> is the first to return
  \<^verbatim>\<open>STAT_EAGAIN\<close>, exactly the tasks \<open>0..k\<close> are called, in order, each in the state its
  predecessor left, and the pass ends in the state task \<open>k\<close> left: no later task is
  called. Every other status code lets the pass go on with the next task, so a pass in
  which no task returns \<^verbatim>\<open>STAT_EAGAIN\<close> calls all the tasks in order.
\<close>

theorem dispatch_short_circuit:
  "(\<forall>k < length fs.
       (\<forall>i < k. task_status fs s i \<noteq> STAT_EAGAIN) \<and> task_status fs s k = STAT_EAGAIN
       \<longrightarrow> run_pass fs s = (map (task_status fs s) [0..<Suc k], state_before fs s (Suc k)))
   \<and> ((\<forall>i < length fs. task_status fs s i \<noteq> STAT_EAGAIN)
       \<longrightarrow> run_pass fs s = (map (task_status fs s) [0..<length fs], state_before fs s (length fs)))"
  using run_pass_all [of fs s] run_pass_blocked [of _ fs s] by blast

theorem dispatch_short_circuit_witness:
  "run_pass three_tasks True = ([STAT_OK, STAT_EAGAIN], False)
   \<and> run_pass three_tasks False = ([STAT_OK, STAT_NOOP, STAT_OK], False)"
proof -
  have len: "length three_tasks = 3" by (simp add: three_tasks_def)
  have st: "task_status three_tasks True 0 = STAT_OK" "task_status three_tasks True 1 = STAT_EAGAIN"
    "task_status three_tasks False 0 = STAT_OK" "task_status three_tasks False 1 = STAT_NOOP"
    "task_status three_tasks False 2 = STAT_OK"
    by (simp_all add: task_status_def state_before_def three_tasks_def eval_nat_numeral)
  have sb: "state_before three_tasks True 2 = False" "state_before three_tasks False 3 = False"
    by (simp_all add: state_before_def three_tasks_def eval_nat_numeral)
  have a: "\<forall>i<1. task_status three_tasks True i \<noteq> STAT_EAGAIN" using st by simp
  have b: "\<forall>i<length three_tasks. task_status three_tasks False i \<noteq> STAT_EAGAIN"
    using st len by (simp add: eval_nat_numeral less_Suc_eq)
  have "run_pass three_tasks True
      = (map (task_status three_tasks True) [0..<Suc 1], state_before three_tasks True (Suc 1))"
    using dispatch_short_circuit [of three_tasks True, THEN conjunct1, rule_format, of 1] a st(2) len
    by simp
  moreover have "run_pass three_tasks False
      = (map (task_status three_tasks False) [0..<length three_tasks],
         state_before three_tasks False (length three_tasks))"
    using dispatch_short_circuit [of three_tasks False, THEN conjunct2] b by blast
  ultimately show ?thesis using st sb len by (simp add: eval_nat_numeral upt_rec)
qed

subsection \<open>The two dispatch loops of the sources\<close>

text \<open>
  In the shutdown state the third task of \<^verbatim>\<open>_controller_HSM\<close> answers
  \<^verbatim>\<open>STAT_EAGAIN\<close>, and none of the sixteen tasks below it is called.
\<close>

lemma controller_HSM_shutdown:
  assumes "fst (hw_hard_reset_handler e s) \<noteq> STAT_EAGAIN"
    and "fst (hw_bootloader_handler e (snd (hw_hard_reset_handler e s))) \<noteq> STAT_EAGAIN"
    and "machine_is_shutdown e (snd (hw_bootloader_handler e (snd (hw_hard_reset_handler e s))))"
  shows "controller_HSM e s =
     ([fst (hw_hard_reset_handler e s),
       fst (hw_bootloader_handler e (snd (hw_hard_reset_handler e s))),
       STAT_EAGAIN],
      led_alarm_blink e (snd (hw_bootloader_handler e (snd (hw_hard_reset_handler e s)))))"
  using assms
  by (simp add: controller_HSM_def hsm_tasks_def shutdown_idler_def split_beta Let_def)

text \<open>
  When \<^verbatim>\<open>kinen_callback\<close> answers \<^verbatim>\<open>SC_EAGAIN\<close>, \<^verbatim>\<open>_controller\<close> does not run the tick
  handler.
\<close>

lemma controller_kinen_busy:
  "fst (kinen_callback s) = SC_EAGAIN \<Longrightarrow>
     controller c adc kinen_callback s = ([SC_EAGAIN], snd (kinen_callback s))"
  by (simp add: controller_def split_beta)

subsection \<open>The PID regulator\<close>

text \<open>
  On the real numbers: a disabled PID returns 0 and is left as it was; an enabled one
  returns \<open>Kp * error + Ki * integral + Kd * derivative\<close>, with the integral after the
  gated accumulation of this call, clamped to a non-empty \<open>[output_min, output_max]\<close>.
\<close>

lemma pid_calculate_clamped:
  "(pid_state p = PID_OFF \<longrightarrow> pid_calculate c sp t p = (0, p)) \<and>
   (pid_state p = PID_ON \<and> pid_output_min p \<le> pid_output_max p \<and> pid_dt p \<noteq> 0 \<longrightarrow>
      (let e = sp - t;
           i = (if \<bar>e\<bar> > PID_EPSILON c then pid_integral p + e * pid_dt p else pid_integral p);
           d = (e - pid_prev_error p) / pid_dt p;
           raw = pid_Kp p * e + pid_Ki p * i + pid_Kd p * d;
           out = fst (pid_calculate c sp t p)
       in out = max (pid_output_min p) (min (pid_output_max p) raw)
          \<and> pid_output (snd (pid_calculate c sp t p)) = out
          \<and> pid_output_min p \<le> out \<and> out \<le> pid_output_max p))"
  by (simp add: pid_calculate_def Let_def)

text \<open>The result of an enabled call, in both models, from the values it computes.\<close>

lemma pid_calculate_result:
  assumes on: "pid_state p \<noteq> PID_OFF"
    and e: "e = sp - t"
    and i: "i = (if \<bar>e\<bar> > PID_EPSILON c then pid_integral p + e * pid_dt p else pid_integral p)"
    and d: "d = (e - pid_prev_error p) / pid_dt p"
    and raw: "raw = pid_Kp p * e + pid_Ki p * i + pid_Kd p * d"
    and out: "out = (if raw > pid_output_max p then pid_output_max p
                     else if raw < pid_output_min p then pid_output_min p else raw)"
  shows "pid_calculate c sp t p =
      (out, p\<lparr>pid_setpoint := sp, pid_temperature := t, pid_error := e, pid_integral := i,
               pid_derivative := d, pid_output := out, pid_prev_error := e\<rparr>)"
proof -
  let ?p1 = "p\<lparr>pid_setpoint := sp, pid_temperature := t, pid_error := e\<rparr>"
  let ?p2 = "?p1\<lparr>pid_integral := i\<rparr>"
  let ?p3 = "?p2\<lparr>pid_derivative := d\<rparr>"
  let ?p4 = "?p3\<lparr>pid_output := raw\<rparr>"
  let ?p5 = "?p3\<lparr>pid_output := out\<rparr>"
  have 2: "(if \<bar>pid_error ?p1\<bar> > PID_EPSILON c
            then ?p1\<lparr>pid_integral := pid_integral ?p1 + pid_error ?p1 * pid_dt ?p1\<rparr>
            else ?p1) = ?p2"
    by (simp add: i)
  have 3: "?p2\<lparr>pid_derivative := (pid_error ?p2 - pid_prev_error ?p2) / pid_dt ?p2\<rparr> = ?p3"
    by (simp add: d)
  have 4: "?p3\<lparr>pid_output := pid_Kp ?p3 * pid_error ?p3 + pid_Ki ?p3 * pid_integral ?p3
                                    + pid_Kd ?p3 * pid_derivative ?p3\<rparr> = ?p4"
    by (simp add: raw)
  have 5: "(if pid_output ?p4 > pid_output_max ?p4
                  then ?p4\<lparr>pid_output := pid_output_max ?p4\<rparr>
                  else if pid_output ?p4 < pid_output_min ?p4
                  then ?p4\<lparr>pid_output := pid_output_min ?p4\<rparr>
                  else ?p4) = ?p5"
    by (simp add: out)
  show ?thesis
    unfolding pid_calculate_def Let_def e [symmetric]
    using on by (simp only: if_False 2 3 4 5) (simp add: out)
qed

lemma pid_calculate_fp_result:
  assumes on: "fp_state q \<noteq> PID_OFF"
    and e: "csub c sp t = e"
    and i: "(if cgt (cabs e) (Fin (PID_EPSILON c))
             then cadd c (fp_integral q) (cmul c e (fp_dt q)) else fp_integral q) = i"
    and d: "cquot c (csub c e (fp_prev_error q)) (fp_dt q) = d"
    and raw: "cadd c (cadd c (cmul c (fp_Kp q) e) (cmul c (fp_Ki q) i)) (cmul c (fp_Kd q) d) = raw"
    and out: "(if cgt raw (fp_output_max q) then fp_output_max q
               else if cgt (fp_output_min q) raw then fp_output_min q else raw) = out"
  shows "pid_calculate_fp c sp t q =
      (out, q\<lparr>fp_setpoint := sp, fp_temperature := t, fp_error := e, fp_integral := i,
               fp_derivative := d, fp_output := out, fp_prev_error := e\<rparr>)"
proof -
  let ?p1 = "q\<lparr>fp_setpoint := sp, fp_temperature := t, fp_error := e\<rparr>"
  let ?p2 = "?p1\<lparr>fp_integral := i\<rparr>"
  let ?p3 = "?p2\<lparr>fp_derivative := d\<rparr>"
  let ?p4 = "?p3\<lparr>fp_output := raw\<rparr>"
  let ?p5 = "?p3\<lparr>fp_output := out\<rparr>"
  have 2: "(if cgt (cabs (fp_error ?p1)) (Fin (PID_EPSILON c))
            then ?p1\<lparr>fp_integral := cadd c (fp_integral ?p1) (cmul c (fp_error ?p1) (fp_dt ?p1))\<rparr>
            else ?p1) = ?p2"
    using i by (auto split: if_splits)
  have 3: "?p2\<lparr>fp_derivative := cquot c (csub c (fp_error ?p2) (fp_prev_error ?p2)) (fp_dt ?p2)\<rparr>
           = ?p3"
    using d by simp
  have 4: "?p3\<lparr>fp_output := cadd c (cadd c (cmul c (fp_Kp ?p3) (fp_error ?p3))
                                     (cmul c (fp_Ki ?p3) (fp_integral ?p3)))
                             (cmul c (fp_Kd ?p3) (fp_derivative ?p3))\<rparr> = ?p4"
    using raw by simp
  have 5: "(if cgt (fp_output ?p4) (fp_output_max ?p4)
                  then ?p4\<lparr>fp_output := fp_output_max ?p4\<rparr>
                  else if cgt (fp_output_min ?p4) (fp_output ?p4)
                  then ?p4\<lparr>fp_output := fp_output_min ?p4\<rparr>
                  else ?p4) = ?p5"
    using out by (auto split: if_splits)
  show ?thesis
    unfolding pid_calculate_fp_def Let_def e
    using on by (simp only: if_False 2 3 4 5) simp
qed

lemma cfin_fits: "fits c x \<Longrightarrow> cfin c x = Fin x"
  by (auto simp add: fits_def cfin_def)

text \<open>
  While no value leaves the finite range, the two models compute the same.
\<close>

lemma pid_calculate_fp_agrees:
  assumes h: "pid_no_overflow c sp t p"
  shows "pid_calculate_fp c (Fin sp) (Fin t) (fp_of p)
       = (Fin (fst (pid_calculate c sp t p)), fp_of (snd (pid_calculate c sp t p)))"
proof (cases "pid_state p = PID_OFF")
  case True
  then show ?thesis by (simp add: pid_calculate_fp_def pid_calculate_def fp_of_def)
next
  case on: False
  define e where "e = sp - t"
  define i where "i = (if \<bar>e\<bar> > PID_EPSILON c then pid_integral p + e * pid_dt p else pid_integral p)"
  define d where "d = (e - pid_prev_error p) / pid_dt p"
  define raw where "raw = pid_Kp p * e + pid_Ki p * i + pid_Kd p * d"
  define out where "out = (if raw > pid_output_max p then pid_output_max p
                           else if raw < pid_output_min p then pid_output_min p else raw)"
  from h have f: "pid_dt p \<noteq> 0" "fits c e" "fits c (e * pid_dt p)" "fits c i"
      "fits c (e - pid_prev_error p)" "fits c d" "fits c (pid_Kp p * e)" "fits c (pid_Ki p * i)"
      "fits c (pid_Kd p * d)" "fits c (pid_Kp p * e + pid_Ki p * i)" "fits c raw"
    unfolding pid_no_overflow_def Let_def e_def [symmetric]
    unfolding i_def [symmetric] d_def [symmetric] raw_def [symmetric]
    by blast+
  have r: "pid_calculate c sp t p =
      (out, p\<lparr>pid_setpoint := sp, pid_temperature := t, pid_error := e, pid_integral := i,
               pid_derivative := d, pid_output := out, pid_prev_error := e\<rparr>)"
    by (rule pid_calculate_result [OF on e_def i_def d_def raw_def out_def])
  have s: "fp_state (fp_of p) \<noteq> PID_OFF" "fp_integral (fp_of p) = Fin (pid_integral p)"
      "fp_dt (fp_of p) = Fin (pid_dt p)" "fp_prev_error (fp_of p) = Fin (pid_prev_error p)"
      "fp_Kp (fp_of p) = Fin (pid_Kp p)" "fp_Ki (fp_of p) = Fin (pid_Ki p)"
      "fp_Kd (fp_of p) = Fin (pid_Kd p)" "fp_output_max (fp_of p) = Fin (pid_output_max p)"
      "fp_output_min (fp_of p) = Fin (pid_output_min p)"
    using on by (simp_all add: fp_of_def)
  have e1: "csub c (Fin sp) (Fin t) = Fin e"
    using f(2) by (simp add: csub_def cfin_fits e_def)
  have i1: "(if cgt (cabs (Fin e)) (Fin (PID_EPSILON c))
             then cadd c (fp_integral (fp_of p)) (cmul c (Fin e) (fp_dt (fp_of p)))
             else fp_integral (fp_of p)) = Fin i"
  proof (cases "\<bar>e\<bar> > PID_EPSILON c")
    case True
    with f(3,4) show ?thesis by (simp add: i_def cfin_fits s)
  next
    case False
    then show ?thesis by (simp add: i_def s)
  qed
  have d1: "cquot c (csub c (Fin e) (fp_prev_error (fp_of p))) (fp_dt (fp_of p)) = Fin d"
    using f(1,5,6) by (simp add: csub_def cfin_fits d_def s)
  have raw1: "cadd c (cadd c (cmul c (fp_Kp (fp_of p)) (Fin e)) (cmul c (fp_Ki (fp_of p)) (Fin i)))
                     (cmul c (fp_Kd (fp_of p)) (Fin d)) = Fin raw"
    using f(7-11) by (simp add: cfin_fits raw_def s)
  have out1: "(if cgt (Fin raw) (fp_output_max (fp_of p)) then fp_output_max (fp_of p)
               else if cgt (fp_output_min (fp_of p)) (Fin raw) then fp_output_min (fp_of p)
               else Fin raw) = Fin out"
    by (simp add: out_def s)
  have l: "pid_calculate_fp c (Fin sp) (Fin t) (fp_of p) =
      (Fin out, (fp_of p)\<lparr>fp_setpoint := Fin sp, fp_temperature := Fin t, fp_error := Fin e,
               fp_integral := Fin i, fp_derivative := Fin d, fp_output := Fin out,
               fp_prev_error := Fin e\<rparr>)"
    by (rule pid_calculate_fp_result [OF s(1) e1 i1 d1 raw1 out1])
  show ?thesis unfolding l r by (simp add: fp_of_def)
qed

text \<open>
  With the arithmetic of the target, the value returned is inside the interval or it
  is NaN: the two saturation tests are both false of a NaN.
\<close>

lemma clamp_fp:
  "lo \<le> hi \<Longrightarrow>
     (let out = (if cgt x (Fin hi) then Fin hi else if cgt (Fin lo) x then Fin lo else x)
      in out = NaN \<and> x = NaN \<or> (\<exists>r. out = Fin r \<and> lo \<le> r \<and> r \<le> hi))"
  by (cases x) (auto simp add: Let_def)


lemma pid_calculate_fp_range:
  assumes "fp_state p = PID_ON" "fp_output_min p = Fin lo" "fp_output_max p = Fin hi" "lo \<le> hi"
  shows "fst (pid_calculate_fp c setpoint temperature p) = NaN
         \<or> (\<exists>r. fst (pid_calculate_fp c setpoint temperature p) = Fin r \<and> lo \<le> r \<and> r \<le> hi)"
proof -
  define e where "e = csub c setpoint temperature"
  define i where "i = (if cgt (cabs e) (Fin (PID_EPSILON c))
                       then cadd c (fp_integral p) (cmul c e (fp_dt p)) else fp_integral p)"
  define d where "d = cquot c (csub c e (fp_prev_error p)) (fp_dt p)"
  define raw where "raw = cadd c (cadd c (cmul c (fp_Kp p) e) (cmul c (fp_Ki p) i)) (cmul c (fp_Kd p) d)"
  have out: "fst (pid_calculate_fp c setpoint temperature p)
      = (if cgt raw (Fin hi) then Fin hi else if cgt (Fin lo) raw then Fin lo else raw)"
    using assms(1-3)
    by (simp add: pid_calculate_fp_def Let_def e_def i_def d_def raw_def)
  from clamp_fp [OF assms(4), of raw] show ?thesis
    unfolding out by (auto simp add: Let_def)
qed

lemma pid_calculate_fp_off:
  "fp_state p = PID_OFF \<Longrightarrow> pid_calculate_fp c setpoint temperature p = (Fin 0, p)"
  by (simp add: pid_calculate_fp_def)





text \<open>
  Claim C7. On an enabled call the integral grows by \<open>error * dt\<close> when \<open>|error|\<close> exceeds
  \<^verbatim>\<open>PID_EPSILON\<close> and is unchanged otherwise; \<open>prev_error\<close> becomes the current error in
  both cases; and any number of calls with the temperature at the setpoint leaves the
  integral unchanged.
\<close>

theorem pid_integral_gate:
  "pid_state p \<noteq> PID_OFF \<Longrightarrow>
     pid_integral (snd (pid_calculate c sp t p))
       = (if \<bar>sp - t\<bar> > PID_EPSILON c then pid_integral p + (sp - t) * pid_dt p
          else pid_integral p)
     \<and> pid_prev_error (snd (pid_calculate c sp t p)) = sp - t
     \<and> pid_integral (pid_repeat c sp sp n p) = pid_integral p"
proof -
  assume on: "pid_state p \<noteq> PID_OFF"
  have st: "pid_state (snd (pid_calculate c sp t q)) = pid_state q" for q t
    by (simp add: pid_calculate_def Let_def)
  have one: "pid_integral (snd (pid_calculate c sp sp q)) = pid_integral q" for q
    by (simp add: pid_calculate_def Let_def)
  have rep: "pid_integral (pid_repeat c sp sp n q) = pid_integral q" for q
    by (induction n arbitrary: q) (simp_all add: one)
  show ?thesis using on rep by (simp add: pid_calculate_def Let_def)
qed

theorem pid_integral_gate_witness:
  "pid_integral (snd (pid_calculate test_config 200 150 (pid_init test_config))) = 5
   \<and> pid_integral (snd (pid_calculate test_config 200 200 (pid_init test_config))) = 0
   \<and> pid_prev_error (snd (pid_calculate test_config 200 150 (pid_init test_config))) = 50
   \<and> pid_integral (pid_repeat test_config 200 200 7
        (snd (pid_calculate test_config 200 150 (pid_init test_config)))) = 5"
  using pid_integral_gate [where p = "pid_init test_config" and c = test_config and sp = 200
      and t = 150 and n = 0]
    pid_integral_gate [where p = "pid_init test_config" and c = test_config and sp = 200
      and t = 200 and n = 0]
    pid_integral_gate [where p = "snd (pid_calculate test_config 200 150 (pid_init test_config))"
      and c = test_config and sp = 200 and t = 200 and n = 7]
  by (simp add: pid_init_def test_config_def pid_calculate_def Let_def)

subsection \<open>Frame and effect lemmas\<close>

lemma pwm_set_duty_frame:
  "heater (pwm_set_duty c d s) = heater s" "pid (pwm_set_duty c d s) = pid s"
  "sensor (pwm_set_duty c d s) = sensor s" "adc_count (pwm_set_duty c d s) = adc_count s"
  by (simp_all add: pwm_set_duty_def Let_def)

lemma pwm_on_frame:
  "heater (pwm_on c f d s) = heater s" "pid (pwm_on c f d s) = pid s"
  "sensor (pwm_on c f d s) = sensor s" "adc_count (pwm_on c f d s) = adc_count s"
  by (simp_all add: pwm_on_def pwm_set_duty_frame pwm_set_freq_def pwm_init_def Let_def)

lemma pwm_on_duty_0: "OCR2B (device (pwm_on c f 0 s)) = 255"
  by (simp add: pwm_on_def pwm_set_duty_def Let_def)

lemma pwm_on_freq: "pwm_freq (device (pwm_on c f 0 s)) = cdiv (PWM_CLOCK c) f"
  by (simp add: pwm_on_def pwm_set_duty_def pwm_set_freq_def pwm_init_def Let_def)

lemma heater_off_effect:
  "heater_state (heater (heater_off c st code s)) = st"
  "heater_code (heater (heater_off c st code s)) = code"
  "pid (heater_off c st code s) = pid s"
  "sensor_state (sensor (heater_off c st code s)) = SENSOR_OFF"
  "OCR2B (device (heater_off c st code s)) = 255"
  by (simp_all add: heater_off_def pwm_off_def sensor_off_def pwm_on_frame pwm_on_duty_0 Let_def)

lemma SAMPLE_frame:
  "heater (snd (SAMPLE c adc s)) = heater s" "pid (snd (SAMPLE c adc s)) = pid s"
  "device (snd (SAMPLE c adc s)) = device s" "sensor (snd (SAMPLE c adc s)) = sensor s"
  by (simp_all add: SAMPLE_def adc_read_def)

lemma sensor_sample_loop_frame:
  "heater (snd (sensor_sample_loop c adc i x s)) = heater s
   \<and> pid (snd (sensor_sample_loop c adc i x s)) = pid s
   \<and> device (snd (sensor_sample_loop c adc i x s)) = device s"
  by (induction c adc i x s rule: sensor_sample_loop.induct)
     (simp_all add: split_beta Let_def SAMPLE_frame)

lemma sensor_sample_frame:
  "heater (snd (sensor_sample c adc b s)) = heater s"
  "pid (snd (sensor_sample c adc b s)) = pid s"
  "device (snd (sensor_sample c adc b s)) = device s"
  by (simp_all add: sensor_sample_def split_beta Let_def SAMPLE_frame sensor_sample_loop_frame)

lemma sensor_callback_frame:
  "heater (sensor_callback c adc s) = heater s"
  "pid (sensor_callback c adc s) = pid s"
  "device (sensor_callback c adc s) = device s"
  by (simp_all add: sensor_callback_def split_beta Let_def sensor_sample_frame)

lemma sensor_callback_inactive:
  "sensor_state (sensor s) = SENSOR_OFF \<or> sensor_state (sensor s) = SENSOR_SHUTDOWN
     \<Longrightarrow> sensor_callback c adc s = s"
  by (auto simp add: sensor_callback_def)

lemma heater_callback_idle:
  "heater_state (heater s) = HEATER_OFF \<or> heater_state (heater s) = HEATER_SHUTDOWN
     \<Longrightarrow> heater_callback c s = s"
  by (auto simp add: heater_callback_def)

lemma heater_callback_state:
  "heater_state (heater (heater_callback c s)) = heater_state (heater s)
   \<or> heater_state (heater (heater_callback c s)) = HEATER_SHUTDOWN"
  by (simp add: heater_callback_def sensor_start_temperature_reading_def sensor_get_state_def
      split_beta Let_def pwm_set_duty_frame heater_off_effect)

lemma heater_callback_no_data:
  "sensor_state (sensor s) \<noteq> SENSOR_HAS_DATA \<Longrightarrow>
     heater (heater_callback c s) = heater s \<and> pid (heater_callback c s) = pid s
     \<and> device (heater_callback c s) = device s
     \<and> sensor_state (sensor (heater_callback c s)) = sensor_state (sensor s)
     \<and> sensor_code (sensor (heater_callback c s)) = sensor_code (sensor s)"
  by (simp add: heater_callback_def sensor_start_temperature_reading_def sensor_get_state_def)

lemma heater_on_active:
  "heater_state (heater s) = HEATER_HEATING \<or> heater_state (heater s) = HEATER_AT_TARGET
     \<Longrightarrow> heater_on c sp s = s"
  by (auto simp add: heater_on_def)

lemma heater_on_inactive:
  "heater_state (heater s) \<noteq> HEATER_HEATING \<Longrightarrow> heater_state (heater s) \<noteq> HEATER_AT_TARGET \<Longrightarrow>
     heater_state (heater (heater_on c sp s)) = HEATER_HEATING
     \<and> heater_setpoint (heater (heater_on c sp s)) = sp
     \<and> heater_code (heater (heater_on c sp s)) = heater_code (heater s)
     \<and> heater_regulation_timer (heater (heater_on c sp s)) = heater_regulation_timer (heater s)
     \<and> pid (heater_on c sp s) = pid_reset (pid s)
     \<and> sensor (heater_on c sp s) = sensor s
     \<and> OCR2B (device (heater_on c sp s)) = 255
     \<and> pwm_freq (device (heater_on c sp s)) = cdiv (PWM_CLOCK c) (PWM_FREQUENCY c)"
  by (simp add: heater_on_def sensor_on_def Let_def pwm_on_frame pwm_on_duty_0 pwm_on_freq)

lemma heater_init_state: "heater_state (heater (heater_init c s)) = HEATER_OFF"
  by (simp add: heater_init_def)

lemma run_ops_Nil: "run_ops c adc [] s = s"
  by (simp add: run_ops_def)

lemma run_ops_Cons: "run_ops c adc (op # ops) s = run_ops c adc ops (heater_step c adc op s)"
  by (simp add: run_ops_def)

lemma run_ops_append: "run_ops c adc (xs @ ys) s = run_ops c adc ys (run_ops c adc xs s)"
  by (simp add: run_ops_def)

lemma poll_in_shutdown:
  "heater_state (heater s) = HEATER_SHUTDOWN \<Longrightarrow> is_poll op \<Longrightarrow>
     heater (heater_step c adc op s) = heater s"
  by (cases op) (simp_all add: heater_callback_idle sensor_callback_frame)

lemma polls_in_shutdown:
  "heater_state (heater s) = HEATER_SHUTDOWN \<Longrightarrow> list_all is_poll ops \<Longrightarrow>
     heater (run_ops c adc ops s) = heater s"
proof (induction ops arbitrary: s)
  case Nil
  show ?case by (simp add: run_ops_Nil)
next
  case (Cons op ops)
  have h: "heater (heater_step c adc op s) = heater s"
    using Cons.prems by (simp add: poll_in_shutdown)
  then have "heater_state (heater (heater_step c adc op s)) = HEATER_SHUTDOWN"
    using Cons.prems(1) by simp
  then have "heater (run_ops c adc ops (heater_step c adc op s)) = heater (heater_step c adc op s)"
    using Cons.prems(2) by (intro Cons.IH) simp_all
  then show ?case using h by (simp add: run_ops_Cons)
qed

subsection \<open>The heater state machine\<close>

text \<open>
  Claim C3, as amended. Once the heater is in \<open>HEATER_SHUTDOWN\<close>, polling never leaves
  it: any sequence of heater and sensor callbacks leaves the whole heater struct, state
  and code included, as it is. The state is left by a command: \<open>heater_init\<close> (to
  \<open>HEATER_OFF\<close>), \<open>heater_off\<close> (to the state it is given) and also \<open>heater_on\<close>, which
  starts a new heating cycle (\<open>HEATER_HEATING\<close>).
\<close>

theorem shutdown_left_by_commands:
  "heater_state (heater s) = HEATER_SHUTDOWN \<Longrightarrow>
     (list_all is_poll ops \<longrightarrow> heater (run_ops c adc ops s) = heater s)
     \<and> heater_state (heater (heater_on c setpoint s)) = HEATER_HEATING
     \<and> heater_state (heater (heater_off c state code s)) = state
     \<and> heater_state (heater (heater_init c s)) = HEATER_OFF"
  by (simp add: polls_in_shutdown heater_on_inactive heater_off_effect heater_init_state)

lemma shutdown_state_is_shutdown: "heater_state (heater shutdown_state) = HEATER_SHUTDOWN"
  by (simp add: shutdown_state_def run_ops_def heater_off_effect)

theorem shutdown_left_by_commands_witness:
  "heater_state (heater shutdown_state) = HEATER_SHUTDOWN
   \<and> list_all is_poll [OpSample, OpPoll, OpPoll]
   \<and> heater (run_ops test_config (\<lambda>k. 0) [OpSample, OpPoll, OpPoll] shutdown_state)
       = heater shutdown_state
   \<and> heater_state (heater (heater_on test_config 140 shutdown_state)) = HEATER_HEATING"
  using shutdown_left_by_commands [where s = shutdown_state and ops = "[OpSample, OpPoll, OpPoll]"
      and c = test_config and adc = "\<lambda>k. 0" and setpoint = 140]
    shutdown_state_is_shutdown
  by simp

text \<open>
  The claim as stated fails: \<open>heater_on\<close> called in \<open>HEATER_SHUTDOWN\<close> starts a heating
  cycle.
\<close>

theorem shutdown_terminal_counterexample:
  "heater_state (heater shutdown_state) = HEATER_SHUTDOWN
   \<and> heater_state (heater (run_ops test_config (\<lambda>k. 0) [OpOn 140] shutdown_state))
       = HEATER_HEATING"
  using shutdown_state_is_shutdown
  by (simp add: run_ops_def heater_on_inactive)

lemma step_not_at_target:
  "heater_state (heater s) \<noteq> HEATER_AT_TARGET \<Longrightarrow> \<not> sets_at_target op \<Longrightarrow>
     heater_state (heater (heater_step c adc op s)) \<noteq> HEATER_AT_TARGET"
proof (cases op)
  case OpInit
  then show ?thesis by (simp add: heater_init_state)
next
  case (OpOn sp)
  assume "heater_state (heater s) \<noteq> HEATER_AT_TARGET"
  then show ?thesis using OpOn
    by (cases "heater_state (heater s) = HEATER_HEATING")
       (simp_all add: heater_on_active heater_on_inactive)
next
  case (OpOff st code)
  assume "\<not> sets_at_target op"
  then show ?thesis using OpOff by (simp add: heater_off_effect)
next
  case OpPoll
  assume "heater_state (heater s) \<noteq> HEATER_AT_TARGET"
  then show ?thesis using OpPoll heater_callback_state [of c s] by auto
next
  case OpSample
  assume "heater_state (heater s) \<noteq> HEATER_AT_TARGET"
  then show ?thesis using OpSample by (simp add: sensor_callback_frame)
qed

lemma run_not_at_target:
  "heater_state (heater s) \<noteq> HEATER_AT_TARGET \<Longrightarrow> \<not> list_ex sets_at_target ops \<Longrightarrow>
     heater_state (heater (run_ops c adc ops s)) \<noteq> HEATER_AT_TARGET"
proof (induction ops arbitrary: s)
  case Nil
  then show ?case by (simp add: run_ops_Nil)
next
  case (Cons op ops)
  have "heater_state (heater (heater_step c adc op s)) \<noteq> HEATER_AT_TARGET"
    using Cons.prems by (simp add: step_not_at_target)
  then show ?case using Cons.prems(2) Cons.IH by (simp add: run_ops_Cons)
qed

lemma tick_callback_heater_state:
  "heater_state (heater (snd (tick_callback c adc s))) = heater_state (heater s)
   \<or> heater_state (heater (snd (tick_callback c adc s))) = HEATER_SHUTDOWN"
proof -
  let ?s3 = "(sensor_callback c adc (s\<lparr>device := (device s)\<lparr>tick_flag := False\<rparr>\<rparr>))
               \<lparr>device := (device (sensor_callback c adc (s\<lparr>device := (device s)\<lparr>tick_flag := False\<rparr>\<rparr>)))
                  \<lparr>tick_100ms_count := 10\<rparr>\<rparr>"
  have h: "heater ?s3 = heater s" by (simp add: sensor_callback_frame)
  from heater_callback_state [of c ?s3] h show ?thesis
    by (auto simp add: tick_callback_def tick_10ms_def tick_100ms_def tick_1sec_def Let_def
        sensor_callback_frame)
qed

lemma event_not_at_target:
  "heater_state (heater s) \<noteq> HEATER_AT_TARGET \<Longrightarrow>
     heater_state (heater (main_loop_event c adc kinen_idle ev s)) \<noteq> HEATER_AT_TARGET"
  using tick_callback_heater_state [of c adc s]
  by (cases ev) (auto simp add: tick_isr_def controller_def kinen_idle_def split_beta Let_def)

lemma events_not_at_target:
  "heater_state (heater s) \<noteq> HEATER_AT_TARGET \<Longrightarrow>
     heater_state (heater (fold (main_loop_event c adc kinen_idle) evs s)) \<noteq> HEATER_AT_TARGET"
  by (induction evs arbitrary: s) (simp_all add: event_not_at_target)

lemma in_use_not_at_target: "heater_op_in_use op \<Longrightarrow> \<not> sets_at_target op"
  by (cases op) auto

text \<open>
  Claim C10. After \<open>heater_init\<close>, along every sequence of heater operations as they are
  used (\<open>heater_off\<close> with \<open>HEATER_SHUTDOWN\<close> or \<open>HEATER_OFF\<close>), the heater state is one
  of \<open>HEATER_OFF\<close>, \<open>HEATER_HEATING\<close> and \<open>HEATER_SHUTDOWN\<close> after every operation; and
  so it is in every run of the program, which is \<open>heater_init\<close>, \<open>heater_on\<close> and then
  the main loop: no operation assigns \<open>HEATER_AT_TARGET\<close>.
\<close>

theorem heater_state_never_at_target:
  "(list_all heater_op_in_use ops \<longrightarrow>
      heater_state (heater (run_ops c adc (take n ops) (heater_init c s)))
        \<in> {HEATER_OFF, HEATER_HEATING, HEATER_SHUTDOWN})
   \<and> heater_state (heater (fold (main_loop_event c adc kinen_idle) evs
          (heater_on c setpoint (heater_init c s))))
        \<in> {HEATER_OFF, HEATER_HEATING, HEATER_SHUTDOWN}"
proof -
  have a: "heater_state (heater (run_ops c adc (take n ops) (heater_init c s))) \<noteq> HEATER_AT_TARGET"
    if "list_all heater_op_in_use ops"
  proof -
    have "\<not> list_ex sets_at_target (take n ops)"
      using that by (auto simp add: list_ex_iff list_all_iff dest: in_set_takeD in_use_not_at_target)
    then show ?thesis
      by (intro run_not_at_target) (simp_all add: heater_init_state)
  qed
  have "heater_state (heater (heater_on c setpoint (heater_init c s))) \<noteq> HEATER_AT_TARGET"
    by (simp add: heater_on_inactive heater_init_state)
  then have b: "heater_state (heater (fold (main_loop_event c adc kinen_idle) evs
          (heater_on c setpoint (heater_init c s)))) \<noteq> HEATER_AT_TARGET"
    by (rule events_not_at_target)
  have c: "x \<noteq> HEATER_AT_TARGET \<Longrightarrow> x \<in> {HEATER_OFF, HEATER_HEATING, HEATER_SHUTDOWN}" for x
    by (cases x) simp_all
  show ?thesis using a b c by blast
qed

theorem heater_state_never_at_target_witness:
  "list_all heater_op_in_use [OpOn 140, OpSample, OpPoll, OpOff HEATER_SHUTDOWN 1, OpOn 150]
   \<and> heater_state (heater (run_ops test_config (\<lambda>k. 0)
        (take 4 [OpOn 140, OpSample, OpPoll, OpOff HEATER_SHUTDOWN 1, OpOn 150])
        (heater_init test_config power_on_state)))
       \<in> {HEATER_OFF, HEATER_HEATING, HEATER_SHUTDOWN}"
  using heater_state_never_at_target [where ops = "[OpOn 140, OpSample, OpPoll, OpOff HEATER_SHUTDOWN 1, OpOn 150]"
      and c = test_config and adc = "\<lambda>k. 0" and n = 4 and s = power_on_state]
  by simp

text \<open>
  Claim C9. For every setpoint and code, after \<open>heater_on\<close>, \<open>heater_off(HEATER_OFF, code)\<close>
  and the next \<open>heater_on\<close> the heater is heating with the integral and \<open>prev_error\<close> of
  the PID at zero, whatever they were. Every \<open>heater_on\<close> that starts a cycle (the heater
  was neither heating nor at target) leaves them at zero, and they are still zero after
  an immediate \<open>heater_off\<close>.
\<close>

theorem pid_reset_on_new_cycle:
  "(let s2 = heater_on c setpoint2 (heater_off c HEATER_OFF code (heater_on c setpoint s))
    in heater_state (heater s2) = HEATER_HEATING
       \<and> pid_integral (pid s2) = 0 \<and> pid_prev_error (pid s2) = 0)
   \<and> (heater_state (heater s) \<noteq> HEATER_HEATING \<and> heater_state (heater s) \<noteq> HEATER_AT_TARGET \<longrightarrow>
        (let s1 = heater_on c setpoint s
         in heater_state (heater s1) = HEATER_HEATING
            \<and> pid_integral (pid s1) = 0 \<and> pid_prev_error (pid s1) = 0)
        \<and> (let s1 = heater_off c HEATER_OFF code (heater_on c setpoint s)
           in pid_integral (pid s1) = 0 \<and> pid_prev_error (pid s1) = 0))"
  by (simp add: Let_def heater_on_inactive heater_off_effect pid_reset_def)

theorem pid_reset_on_new_cycle_witness:
  "pid_integral (pid stale_pid_state) = 7 \<and> pid_prev_error (pid stale_pid_state) = 3
   \<and> heater_state (heater stale_pid_state) = HEATER_OFF
   \<and> pid_integral (pid (heater_on test_config 140 stale_pid_state)) = 0
   \<and> pid_prev_error (pid (heater_on test_config 140 stale_pid_state)) = 0
   \<and> pid_integral (pid (heater_off test_config HEATER_OFF 9
         (heater_on test_config 140 stale_pid_state))) = 0
   \<and> heater_state (heater (heater_on test_config 150 (heater_off test_config HEATER_OFF 9
         (heater_on test_config 140 stale_pid_state)))) = HEATER_HEATING"
  using pid_reset_on_new_cycle [where s = stale_pid_state and c = test_config and setpoint = 140
      and ?setpoint2.0 = 150 and code = 9]
  by (simp add: stale_pid_state_def heater_init_def Let_def)

subsection \<open>The duty cycle setter\<close>

lemma cast_uint8_in_range:
  "0 \<le> r \<Longrightarrow> r < 256 \<Longrightarrow> uint (cast_uint8 c (Fin r)) = \<lfloor>r\<rfloor>"
proof -
  assume r: "0 \<le> r" "r < 256"
  have "0 \<le> \<lfloor>r\<rfloor>" using r by simp
  moreover have "\<lfloor>r\<rfloor> < 256" using r by (simp add: floor_less_iff)
  ultimately have "uint (word_of_int \<lfloor>r\<rfloor> :: 8 word) = \<lfloor>r\<rfloor>"
    by (simp add: uint_word_of_int take_bit_int_eq_self)
  then show ?thesis using r by (simp add: cast_uint8_def)
qed

lemma real_unat_bounds: "0 \<le> real (unat (a :: 8 word))" "real (unat a) < 256"
proof -
  have "unat a < 2 ^ LENGTH(8)" by (rule unsigned_less)
  then have "unat a < 256" by simp
  then have "real (unat a) < real 256" by (simp only: of_nat_less_iff)
  then show "real (unat a) < 256" by (simp del: of_nat_unat)
  show "0 \<le> real (unat a)" by (rule of_nat_0_le_iff)
qed

lemma duty_product_range:
  "0 < d \<Longrightarrow> d \<le> 100 \<Longrightarrow>
     0 \<le> real (unat (a :: 8 word)) * (1 - d / 100) \<and> real (unat a) * (1 - d / 100) < 256"
proof -
  assume d: "0 < d" "d \<le> 100"
  have a: "real (unat a) < 256" "0 \<le> real (unat a)" by (rule real_unat_bounds)+
  have f: "0 \<le> 1 - d / 100" "1 - d / 100 < 1" using d by simp_all
  have "real (unat a) * (1 - d / 100) \<le> real (unat a) * 1"
    using f a(2) by (intro mult_left_mono) (simp_all del: of_nat_unat)
  moreover have "0 \<le> real (unat a) * (1 - d / 100)"
    using a(2) f(1) by (rule mult_nonneg_nonneg)
  ultimately show ?thesis using a(1) by (simp del: of_nat_unat)
qed

lemma OCR2B_duty:
  "OCR2B (device (pwm_set_duty c duty s)) =
     (if duty \<le> 0 then 255 else if duty > 100 then 0
      else cast_uint8 c (Fin (real (unat (OCR2A (device s))) * (1 - duty / 100))))"
  by (simp add: pwm_set_duty_def Let_def)

lemma OCR2B_duty_uint:
  "0 < d \<Longrightarrow> d \<le> 100 \<Longrightarrow>
     uint (OCR2B (device (pwm_set_duty c d s))) = \<lfloor>real (unat (OCR2A (device s))) * (1 - d / 100)\<rfloor>"
  using duty_product_range [of d "OCR2A (device s)"]
  by (simp add: OCR2B_duty cast_uint8_in_range del: of_nat_unat)

lemma OCR2B_antitone:
  "d1 \<le> d2 \<Longrightarrow> OCR2B (device (pwm_set_duty c d2 s)) \<le> OCR2B (device (pwm_set_duty c d1 s))"
proof -
  assume le: "d1 \<le> d2"
  consider "d1 \<le> 0" | "d2 > 100" | "0 < d1" "d2 \<le> 100" by linarith
  then show ?thesis
  proof cases
    case 1
    have "OCR2B (device (pwm_set_duty c d1 s)) = - 1" using 1 by (simp add: OCR2B_duty)
    then show ?thesis by simp
  next
    case 2
    then show ?thesis using le by (simp add: OCR2B_duty)
  next
    case 3
    have d: "0 < d2" "d1 \<le> 100" using 3 le by simp_all
    have "real (unat (OCR2A (device s))) * (1 - d2 / 100)
          \<le> real (unat (OCR2A (device s))) * (1 - d1 / 100)"
      using le real_unat_bounds(1) [of "OCR2A (device s)"]
      by (intro mult_left_mono) (simp_all del: of_nat_unat)
    then have "\<lfloor>real (unat (OCR2A (device s))) * (1 - d2 / 100)\<rfloor>
          \<le> \<lfloor>real (unat (OCR2A (device s))) * (1 - d1 / 100)\<rfloor>"
      by (rule floor_mono)
    then show ?thesis
      using 3 d by (simp add: word_le_def OCR2B_duty_uint del: of_nat_unat)
  qed
qed

text \<open>
  Claim C8, as amended. \<open>OCR2B\<close> is the compare value of the inverted PWM output: 255
  holds the output low (fully off), 0 is what duty 100 yields (fully on), and the on-time
  shrinks as the value grows. A duty of 0 or less yields 255; a duty of 100 yields 0; a
  duty above 100 yields the same value as duty 100, so it is clamped to fully on; and
  over all duties the compare value does not decrease as the duty decreases, so the
  on-time does not increase.
\<close>

theorem pwm_set_duty_compare:
  "(duty \<le> 0 \<longrightarrow> OCR2B (device (pwm_set_duty c duty s)) = 255)
   \<and> OCR2B (device (pwm_set_duty c 100 s)) = 0
   \<and> (duty > 100 \<longrightarrow> OCR2B (device (pwm_set_duty c duty s)) = OCR2B (device (pwm_set_duty c 100 s)))
   \<and> (d1 \<le> d2 \<longrightarrow>
        OCR2B (device (pwm_set_duty c d2 s)) \<le> OCR2B (device (pwm_set_duty c d1 s)))"
proof -
  have "OCR2B (device (pwm_set_duty c 100 s)) = 0"
    by (simp add: OCR2B_duty cast_uint8_def)
  then show ?thesis using OCR2B_antitone [of d1 d2 c s] by (simp add: OCR2B_duty)
qed

lemma pwm_test_state_OCR2A: "OCR2A (device pwm_test_state) = 125"
  by (simp add: pwm_test_state_def pwm_set_freq_def pwm_init_def test_config_def cdiv_def
      cast_uint8_def Let_def power_on_state_def)

theorem pwm_set_duty_compare_witness:
  "OCR2B (device (pwm_set_duty test_config 0 pwm_test_state)) = 255
   \<and> OCR2B (device (pwm_set_duty test_config 100 pwm_test_state)) = 0
   \<and> OCR2B (device (pwm_set_duty test_config 150 pwm_test_state)) = 0
   \<and> OCR2B (device (pwm_set_duty test_config 20 pwm_test_state)) = 100
   \<and> OCR2B (device (pwm_set_duty test_config 60 pwm_test_state))
      \<le> OCR2B (device (pwm_set_duty test_config 20 pwm_test_state))"
  using pwm_set_duty_compare [where duty = 0 and c = test_config and s = pwm_test_state
      and ?d1.0 = 20 and ?d2.0 = 60]
    pwm_set_duty_compare [where duty = 150 and c = test_config and s = pwm_test_state
      and ?d1.0 = 20 and ?d2.0 = 60]
  by (simp add: OCR2B_duty pwm_test_state_OCR2A cast_uint8_def)

text \<open>
  The claim as stated fails: a duty above 100 yields the output of duty 100, which is not
  the output of duty 0.
\<close>

theorem duty_over_100_counterexample:
  "OCR2B (device (pwm_set_duty test_config 150 pwm_test_state))
     = OCR2B (device (pwm_set_duty test_config 100 pwm_test_state))
   \<and> OCR2B (device (pwm_set_duty test_config 150 pwm_test_state))
     \<noteq> OCR2B (device (pwm_set_duty test_config 0 pwm_test_state))"
  by (simp add: OCR2B_duty cast_uint8_def)

subsection \<open>Turning the heater on\<close>

lemma tick_callback_sensor_off:
  "sensor_state (sensor s) = SENSOR_OFF \<Longrightarrow>
     heater (snd (tick_callback c adc s)) = heater s
     \<and> sensor_state (sensor (snd (tick_callback c adc s))) = SENSOR_OFF
     \<and> OCR2B (device (snd (tick_callback c adc s))) = OCR2B (device s)"
  using heater_callback_no_data [of "(sensor_callback c adc (s\<lparr>device := (device s)\<lparr>tick_flag := False\<rparr>\<rparr>))\<lparr>device := (device (sensor_callback c adc (s\<lparr>device := (device s)\<lparr>tick_flag := False\<rparr>\<rparr>)))\<lparr>tick_100ms_count := 10\<rparr>\<rparr>" c]
  by (simp add: tick_callback_def tick_10ms_def tick_100ms_def tick_1sec_def Let_def
      sensor_callback_inactive)

lemma event_sensor_off:
  "sensor_state (sensor s) = SENSOR_OFF \<Longrightarrow>
     heater (main_loop_event c adc kinen_idle ev s) = heater s
     \<and> sensor_state (sensor (main_loop_event c adc kinen_idle ev s)) = SENSOR_OFF
     \<and> OCR2B (device (main_loop_event c adc kinen_idle ev s)) = OCR2B (device s)"
  using tick_callback_sensor_off [of s c adc]
  by (cases ev) (simp_all add: tick_isr_def controller_def kinen_idle_def split_beta Let_def)

lemma events_sensor_off:
  "sensor_state (sensor s) = SENSOR_OFF \<Longrightarrow>
     heater (fold (main_loop_event c adc kinen_idle) evs s) = heater s
     \<and> sensor_state (sensor (fold (main_loop_event c adc kinen_idle) evs s)) = SENSOR_OFF
     \<and> OCR2B (device (fold (main_loop_event c adc kinen_idle) evs s)) = OCR2B (device s)"
proof (induction evs arbitrary: s)
  case Nil
  then show ?case by simp
next
  case (Cons ev evs)
  from event_sensor_off [OF Cons.prems, of c adc ev]
  have st: "heater (main_loop_event c adc kinen_idle ev s) = heater s"
    "sensor_state (sensor (main_loop_event c adc kinen_idle ev s)) = SENSOR_OFF"
    "OCR2B (device (main_loop_event c adc kinen_idle ev s)) = OCR2B (device s)"
    by simp_all
  from Cons.IH [OF st(2)] st show ?case by simp
qed

lemma restart_state_eval:
  "heater_state (heater restart_state) = HEATER_OFF
   \<and> sensor_state (sensor restart_state) = SENSOR_OFF
   \<and> heater_regulation_timer (heater restart_state) = 1 / 10
   \<and> heater_state (heater (heater_on test_config 150 restart_state)) = HEATER_HEATING
   \<and> sensor_state (sensor (heater_on test_config 150 restart_state)) = SENSOR_OFF
   \<and> heater_regulation_timer (heater (heater_on test_config 150 restart_state)) = 1 / 10"
  by code_simp

text \<open>
  Claim C4, the code at the failing input. A heater that ran a cycle and was turned off
  is turned on again: it is \<open>HEATER_HEATING\<close>, but \<open>sensor_on\<close> has taken no action and the
  sensor is still off, and the timer still holds the time of the earlier cycle. In
  every run of the main loop from there the heater struct never changes and the PWM
  output stays low: the heater never acts.
\<close>

theorem heater_restart_dead:
  "heater_state (heater restart_state) = HEATER_OFF
   \<and> heater_state (heater (heater_on test_config 150 restart_state)) = HEATER_HEATING
   \<and> sensor_state (sensor (heater_on test_config 150 restart_state)) = SENSOR_OFF
   \<and> heater_regulation_timer (heater (heater_on test_config 150 restart_state)) = 1 / 10
   \<and> (\<forall>evs. heater (fold (main_loop_event test_config (\<lambda>k. 100) kinen_idle) evs
                  (heater_on test_config 150 restart_state))
               = heater (heater_on test_config 150 restart_state)
           \<and> sensor_state (sensor (fold (main_loop_event test_config (\<lambda>k. 100) kinen_idle) evs
                  (heater_on test_config 150 restart_state))) = SENSOR_OFF
           \<and> OCR2B (device (fold (main_loop_event test_config (\<lambda>k. 100) kinen_idle) evs
                  (heater_on test_config 150 restart_state))) = 255)"
proof -
  have off: "heater_state (heater restart_state) \<noteq> HEATER_HEATING"
    "heater_state (heater restart_state) \<noteq> HEATER_AT_TARGET"
    using restart_state_eval by simp_all
  have pwm: "OCR2B (device (heater_on test_config 150 restart_state)) = 255"
    using heater_on_inactive [OF off] by simp
  have so: "sensor_state (sensor (heater_on test_config 150 restart_state)) = SENSOR_OFF"
    using restart_state_eval by simp
  show ?thesis
    using restart_state_eval pwm
      events_sensor_off [OF so, of test_config "\<lambda>k. 100"]
    by simp
qed

subsection \<open>Readings of the sensor\<close>

lemma sensor_sample_loop_unfold:
  "0 < i \<Longrightarrow> sensor_sample_loop c adc i sample s =
     (if \<bar>sample - sensor_previous_temp (sensor s)\<bar> < sensor_variance (sensor s)
      then (sample, s\<lparr>sensor := (sensor s)\<lparr>sensor_previous_temp := sample\<rparr>\<rparr>)
      else sensor_sample_loop c adc (i - 1) (fst (SAMPLE c adc s)) (snd (SAMPLE c adc s)))"
  by (cases i) (simp_all add: split_beta)

lemmas tc_eval =
  run_ops_def heater_init_def heater_on_def heater_off_def heater_callback_def
  sensor_callback_def sensor_sample_def SAMPLE_def adc_read_def sensor_init_def sensor_on_def
  sensor_off_def sensor_start_temperature_reading_def sensor_get_state_def
  sensor_get_temperature_def pid_init_def pid_reset_def pid_calculate_def
  pwm_on_def pwm_off_def pwm_init_def pwm_set_freq_def pwm_set_duty_def cast_uint8_def cdiv_def
  test_config_def power_on_state_def Let_def split_beta sensor_sample_loop_unfold

text \<open>
  What one call of \<open>sensor_callback\<close> does to an active sensor when the sample is taken
  as it comes: the first sample of a reading, a later sample that is within variance,
  and the sample that completes the reading.
\<close>

lemma SAMPLE_eq:
  "SAMPLE c adc s = (sample_value c adc (adc_count s), s\<lparr>adc_count := Suc (adc_count s)\<rparr>)"
  by (simp add: SAMPLE_def adc_read_def sample_value_def)

lemma sensor_sample_new:
  "sensor_sample c adc True s =
     (sample_value c adc (adc_count s),
      s\<lparr>adc_count := Suc (adc_count s),
        sensor := (sensor s)\<lparr>sensor_previous_temp := sample_value c adc (adc_count s)\<rparr>\<rparr>)"
  by (simp add: sensor_sample_def SAMPLE_eq)

lemma sensor_sample_accept:
  "0 < unat (sensor_retries (sensor s)) \<Longrightarrow>
   \<bar>sample_value c adc (adc_count s) - sensor_previous_temp (sensor s)\<bar> < sensor_variance (sensor s) \<Longrightarrow>
   sensor_sample c adc False s =
     (sample_value c adc (adc_count s),
      s\<lparr>adc_count := Suc (adc_count s),
        sensor := (sensor s)\<lparr>sensor_previous_temp := sample_value c adc (adc_count s)\<rparr>\<rparr>)"
  by (simp add: sensor_sample_def SAMPLE_eq sensor_sample_loop_unfold)

lemma sensor_callback_first_sample:
  assumes "sensor_active c s" "sensor_samples (sensor s) = 0"
    and "sample_value c adc (adc_count s) \<le> SURFACE_OF_THE_SUN c"
    and "1 < uint (sensor_samples_per_reading (sensor s))"
  shows "sensor_callback c adc s =
     s\<lparr>adc_count := Suc (adc_count s),
       sensor := (sensor s)\<lparr>sensor_accumulator := sample_value c adc (adc_count s),
                            sensor_code := SENSOR_IS_READING c,
                            sensor_previous_temp := sample_value c adc (adc_count s),
                            sensor_samples := 1\<rparr>\<rparr>"
  using assms
  by (simp add: sensor_callback_def sensor_active_def sensor_sample_new Let_def)

lemma sensor_callback_next_sample:
  assumes "sensor_active c s" "sensor_samples (sensor s) \<noteq> 0"
    and "0 < unat (sensor_retries (sensor s))"
    and "\<bar>sample_value c adc (adc_count s) - sensor_previous_temp (sensor s)\<bar>
           < sensor_variance (sensor s)"
    and "sample_value c adc (adc_count s) \<le> SURFACE_OF_THE_SUN c"
    and "sint (sensor_samples (sensor s) + 1) < uint (sensor_samples_per_reading (sensor s))"
  shows "sensor_callback c adc s =
     s\<lparr>adc_count := Suc (adc_count s),
       sensor := (sensor s)
         \<lparr>sensor_accumulator := sensor_accumulator (sensor s) + sample_value c adc (adc_count s),
          sensor_previous_temp := sample_value c adc (adc_count s),
          sensor_samples := sensor_samples (sensor s) + 1\<rparr>\<rparr>"
  using assms
  by (simp add: sensor_callback_def sensor_active_def sensor_sample_accept Let_def)

lemma sensor_callback_last_sample:
  assumes "sensor_active c s"
    and "sensor_samples (sensor s) = 0 \<or>
         (0 < unat (sensor_retries (sensor s)) \<and>
          \<bar>sample_value c adc (adc_count s) - sensor_previous_temp (sensor s)\<bar>
            < sensor_variance (sensor s))"
    and "sample_value c adc (adc_count s) \<le> SURFACE_OF_THE_SUN c"
    and "\<not> sint (sensor_samples (sensor s) + 1) < uint (sensor_samples_per_reading (sensor s))"
    and "acc = (if sensor_samples (sensor s) = 0 then 0 else sensor_accumulator (sensor s))
                 + sample_value c adc (adc_count s)"
    and "t = acc / real_of_int (sint (sensor_samples (sensor s) + 1))"
  shows "sensor_callback c adc s =
     s\<lparr>adc_count := Suc (adc_count s),
       sensor := (sensor s)
         \<lparr>sensor_accumulator := acc,
          sensor_previous_temp := sample_value c adc (adc_count s),
          sensor_samples := sensor_samples (sensor s) + 1,
          sensor_temperature := t,
          sensor_code := classify_code c t,
          sensor_state := classify_state c t\<rparr>\<rparr>"
proof (cases "sensor_samples (sensor s) = 0")
  case True
  then show ?thesis using assms
    by (simp add: sensor_callback_def sensor_active_def sensor_sample_new Let_def
        classify_code_def classify_state_def)
next
  case False
  then show ?thesis using assms
    by (simp add: sensor_callback_def sensor_active_def sensor_sample_accept Let_def
        classify_code_def classify_state_def)
qed

lemma sint_of_nat_8: "j < 128 \<Longrightarrow> sint (of_nat j :: 8 word) = int j"
  by (simp add: signed_of_nat signed_take_bit_int_eq_self)

lemma of_nat_8_nonzero: "0 < j \<Longrightarrow> j < 128 \<Longrightarrow> (of_nat j :: 8 word) \<noteq> 0"
  using sint_of_nat_8 [of j] by auto

lemma partial_reading_reached:
  assumes act: "sensor_active c s"
    and ne: "SENSOR_IS_READING c \<noteq> SENSOR_READING_COMPLETE c"
    and z: "sensor_samples (sensor s) = 0"
    and n: "n = unat (sensor_samples_per_reading (sensor s))" "n \<le> 127"
    and r: "0 < unat (sensor_retries (sensor s))"
    and st: "steady_samples c adc s n"
  shows "0 < j \<Longrightarrow> j < n \<Longrightarrow> (sensor_callback c adc ^^ j) s = partial_reading c adc s j"
proof (induction j)
  case 0
  then show ?case by simp
next
  case (Suc k)
  have spr: "uint (sensor_samples_per_reading (sensor s)) = int n"
    using n(1) by simp
  show ?case
  proof (cases "k = 0")
    case True
    have hot: "sample_value c adc (adc_count s) \<le> SURFACE_OF_THE_SUN c"
      using st Suc.prems(2) by (auto simp add: steady_samples_def dest: spec [of _ 0])
    have "1 < uint (sensor_samples_per_reading (sensor s))"
      using spr Suc.prems(2) True by simp
    from sensor_callback_first_sample [OF act z hot this] True
    show ?thesis by (simp add: partial_reading_def)
  next
    case False
    then have k: "0 < k" "k < n" using Suc.prems(2) by simp_all
    let ?p = "partial_reading c adc s k"
    have ih: "(sensor_callback c adc ^^ k) s = ?p" using Suc.IH k by simp
    have k128: "k < 128" "Suc k < 128" using Suc.prems(2) n(2) by simp_all
    have a1: "sensor_active c ?p"
      using act ne by (simp add: sensor_active_def partial_reading_def)
    have a2: "sensor_samples (sensor ?p) \<noteq> 0"
      using of_nat_8_nonzero [OF k(1) k128(1)] by (simp add: partial_reading_def)
    have a3: "0 < unat (sensor_retries (sensor ?p))"
      using r by (simp add: partial_reading_def)
    have a4: "\<bar>sample_value c adc (adc_count ?p) - sensor_previous_temp (sensor ?p)\<bar>
                < sensor_variance (sensor ?p)"
      using st k by (simp add: partial_reading_def steady_samples_def)
    have a5: "sample_value c adc (adc_count ?p) \<le> SURFACE_OF_THE_SUN c"
      using st k by (simp add: partial_reading_def steady_samples_def)
    have "sint ((of_nat k :: 8 word) + 1) = int (Suc k)"
      using sint_of_nat_8 [OF k128(2)] by (simp add: add.commute)
    then have a6: "sint (sensor_samples (sensor ?p) + 1)
                < uint (sensor_samples_per_reading (sensor ?p))"
      using spr Suc.prems(2) by (simp add: partial_reading_def)
    from sensor_callback_next_sample [OF a1 a2 a3 a4 a5 a6] ih
    show ?thesis by (simp add: partial_reading_def)
  qed
qed

lemma signed_real_of_nat_8: "j < 128 \<Longrightarrow> (signed (of_nat j :: 8 word) :: real) = real j"
proof -
  assume j: "j < 128"
  have "(signed (of_nat j :: 8 word) :: real) = real_of_int (sint (of_nat j :: 8 word))"
    by (simp only: of_int_sint)
  then show ?thesis using sint_of_nat_8 [OF j] by (simp del: of_int_sint)
qed

lemma reading_completes:
  assumes act: "sensor_active c s"
    and ne: "SENSOR_IS_READING c \<noteq> SENSOR_READING_COMPLETE c"
    and z: "sensor_samples (sensor s) = 0"
    and n: "n = unat (sensor_samples_per_reading (sensor s))" "1 \<le> n" "n \<le> 127"
    and r: "0 < unat (sensor_retries (sensor s))"
    and st: "steady_samples c adc s n"
    and mean: "mean = (\<Sum>i<n. sample_value c adc (adc_count s + i)) / real n"
  shows "(sensor_callback c adc ^^ n) s =
     s\<lparr>adc_count := adc_count s + n,
       sensor := (sensor s)
         \<lparr>sensor_accumulator := (\<Sum>i<n. sample_value c adc (adc_count s + i)),
          sensor_previous_temp := sample_value c adc (adc_count s + n - 1),
          sensor_samples := of_nat n,
          sensor_temperature := mean,
          sensor_code := classify_code c mean,
          sensor_state := classify_state c mean\<rparr>\<rparr>"
proof -
  obtain m where m: "n = Suc m" using n(2) by (cases n) simp_all
  have spr: "uint (sensor_samples_per_reading (sensor s)) = int n"
    using n(1) by simp
  have hot: "sample_value c adc (adc_count s + m) \<le> SURFACE_OF_THE_SUN c"
    using st m by (simp add: steady_samples_def)
  show ?thesis
  proof (cases "m = 0")
    case True
    have b1: "sensor_samples (sensor s) = 0 \<or>
         (0 < unat (sensor_retries (sensor s)) \<and>
          \<bar>sample_value c adc (adc_count s) - sensor_previous_temp (sensor s)\<bar>
            < sensor_variance (sensor s))" using z by simp
    have b2: "sample_value c adc (adc_count s) \<le> SURFACE_OF_THE_SUN c"
      using hot True by simp
    have b3: "\<not> sint (sensor_samples (sensor s) + 1) < uint (sensor_samples_per_reading (sensor s))"
      using spr m True z by simp
    from sensor_callback_last_sample [OF act b1 b2 b3 refl refl] z m True mean
    show ?thesis by simp
  next
    case False
    then have k: "0 < m" "m < n" using m by simp_all
    let ?p = "partial_reading c adc s m"
    have ih: "(sensor_callback c adc ^^ m) s = ?p"
      by (rule partial_reading_reached [OF act ne z n(1) n(3) r st k])
    have m128: "m < 128" "Suc m < 128" using m n(3) by simp_all
    have a1: "sensor_active c ?p"
      using act ne by (simp add: sensor_active_def partial_reading_def)
    have nz: "sensor_samples (sensor ?p) \<noteq> 0"
      using of_nat_8_nonzero [OF k(1) m128(1)] by (simp add: partial_reading_def)
    have a2: "sensor_samples (sensor ?p) = 0 \<or>
         (0 < unat (sensor_retries (sensor ?p)) \<and>
          \<bar>sample_value c adc (adc_count ?p) - sensor_previous_temp (sensor ?p)\<bar>
            < sensor_variance (sensor ?p))"
      using r st k m by (simp add: partial_reading_def steady_samples_def)
    have a3: "sample_value c adc (adc_count ?p) \<le> SURFACE_OF_THE_SUN c"
      using hot by (simp add: partial_reading_def)
    have si: "sint ((of_nat m :: 8 word) + 1) = int (Suc m)"
      using sint_of_nat_8 [OF m128(2)] by (simp add: add.commute)
    have sr: "(signed (1 + (of_nat m :: 8 word)) :: real) = 1 + real m"
      using signed_real_of_nat_8 [OF m128(2)] by simp
    from si have a4: "\<not> sint (sensor_samples (sensor ?p) + 1)
                < uint (sensor_samples_per_reading (sensor ?p))"
      using spr m by (simp add: partial_reading_def)
    have "(sensor_callback c adc ^^ n) s = sensor_callback c adc ?p"
      using ih m by simp
    also from sensor_callback_last_sample [OF a1 a2 a3 a4 refl refl] nz si m mean
    have "sensor_callback c adc ?p =
     s\<lparr>adc_count := adc_count s + n,
       sensor := (sensor s)
         \<lparr>sensor_accumulator := (\<Sum>i<n. sample_value c adc (adc_count s + i)),
          sensor_previous_temp := sample_value c adc (adc_count s + n - 1),
          sensor_samples := of_nat n,
          sensor_temperature := mean,
          sensor_code := classify_code c mean,
          sensor_state := classify_state c mean\<rparr>\<rparr>"
      by (simp add: partial_reading_def add.commute sr)
    finally show ?thesis .
  qed
qed

lemma sensor_sample_loop_exhausted:
  "(\<forall>j<i. \<not> \<bar>(if j = 0 then sample else sample_value c adc (adc_count s + j - 1))
               - sensor_previous_temp (sensor s)\<bar> < sensor_variance (sensor s)) \<Longrightarrow>
     sensor_sample_loop c adc i sample s
       = (HOTTER_THAN_THE_SUN c, s\<lparr>adc_count := adc_count s + i\<rparr>)"
proof (induction i arbitrary: sample s)
  case 0
  show ?case by simp
next
  case (Suc i)
  let ?s' = "s\<lparr>adc_count := Suc (adc_count s)\<rparr>"
  have first: "\<not> \<bar>sample - sensor_previous_temp (sensor s)\<bar> < sensor_variance (sensor s)"
    using Suc.prems by (auto dest: spec [of _ 0])
  have rest: "\<forall>j<i. \<not> \<bar>(if j = 0 then sample_value c adc (adc_count s)
                         else sample_value c adc (adc_count ?s' + j - 1))
               - sensor_previous_temp (sensor ?s')\<bar> < sensor_variance (sensor ?s')"
  proof (intro allI impI)
    fix j assume "j < i"
    then have "Suc j < Suc i" by simp
    with Suc.prems
    have "\<not> \<bar>(if Suc j = 0 then sample else sample_value c adc (adc_count s + Suc j - 1))
               - sensor_previous_temp (sensor s)\<bar> < sensor_variance (sensor s)"
      by blast
    then show "\<not> \<bar>(if j = 0 then sample_value c adc (adc_count s)
                         else sample_value c adc (adc_count ?s' + j - 1))
               - sensor_previous_temp (sensor ?s')\<bar> < sensor_variance (sensor ?s')"
      by (cases j) simp_all
  qed
  from Suc.IH [OF rest] first show ?case
    by (simp add: SAMPLE_eq)
qed

lemma sensor_callback_retries_exhausted:
  assumes "sensor_active c s" "sensor_samples (sensor s) \<noteq> 0"
    and "SURFACE_OF_THE_SUN c < HOTTER_THAN_THE_SUN c"
    and "\<forall>j<unat (sensor_retries (sensor s)).
           \<not> \<bar>sample_value c adc (adc_count s + j) - sensor_previous_temp (sensor s)\<bar>
               < sensor_variance (sensor s)"
  shows "sensor_state (sensor (sensor_callback c adc s)) = SENSOR_SHUTDOWN
     \<and> sensor_code (sensor (sensor_callback c adc s)) = SENSOR_READING_FAILED_BAD_READINGS c"
proof -
  let ?s' = "s\<lparr>adc_count := Suc (adc_count s)\<rparr>"
  have "\<forall>j<unat (sensor_retries (sensor ?s')).
          \<not> \<bar>(if j = 0 then sample_value c adc (adc_count s)
               else sample_value c adc (adc_count ?s' + j - 1))
             - sensor_previous_temp (sensor ?s')\<bar> < sensor_variance (sensor ?s')"
    using assms(4) by (auto split: if_splits)
  from sensor_sample_loop_exhausted [OF this]
  have "sensor_sample c adc False s
      = (HOTTER_THAN_THE_SUN c,
         s\<lparr>adc_count := Suc (adc_count s) + unat (sensor_retries (sensor s))\<rparr>)"
    by (simp add: sensor_sample_def SAMPLE_eq)
  then show ?thesis using assms(1-3)
    by (simp add: sensor_callback_def sensor_active_def Let_def)
qed

text \<open>
  A reading that starts with \<open>samples = 0\<close> on an active sensor and whose samples are
  steady is complete after exactly \<^verbatim>\<open>samples_per_reading\<close> calls, not before; its
  temperature is the mean of the samples, and it is classified by the two thresholds.
\<close>

lemma reading_in_exactly_n_calls:
  assumes act: "sensor_active c s"
    and ne: "SENSOR_IS_READING c \<noteq> SENSOR_READING_COMPLETE c"
    and z: "sensor_samples (sensor s) = 0"
    and n: "n = unat (sensor_samples_per_reading (sensor s))" "1 \<le> n" "n \<le> 127"
    and r: "0 < unat (sensor_retries (sensor s))"
    and st: "steady_samples c adc s n"
    and mean: "mean = (\<Sum>i<n. sample_value c adc (adc_count s + i)) / real n"
  shows "(\<forall>j<n. sensor_code (sensor ((sensor_callback c adc ^^ j) s)) \<noteq> SENSOR_READING_COMPLETE c
              \<and> sensor_state (sensor ((sensor_callback c adc ^^ j) s)) = sensor_state (sensor s)
              \<and> sensor_temperature (sensor ((sensor_callback c adc ^^ j) s))
                  = sensor_temperature (sensor s))
     \<and> sensor_temperature (sensor ((sensor_callback c adc ^^ n) s)) = mean
     \<and> (mean > SENSOR_DISCONNECTED_TEMPERATURE c \<longrightarrow>
          sensor_code (sensor ((sensor_callback c adc ^^ n) s)) = SENSOR_READING_FAILED_DISCONNECTED c
          \<and> sensor_state (sensor ((sensor_callback c adc ^^ n) s)) = SENSOR_HAS_NO_DATA)
     \<and> (\<not> mean > SENSOR_DISCONNECTED_TEMPERATURE c \<and> mean < SENSOR_NO_POWER_TEMPERATURE c \<longrightarrow>
          sensor_code (sensor ((sensor_callback c adc ^^ n) s)) = SENSOR_READING_FAILED_NO_POWER c
          \<and> sensor_state (sensor ((sensor_callback c adc ^^ n) s)) = SENSOR_HAS_NO_DATA)
     \<and> (\<not> mean > SENSOR_DISCONNECTED_TEMPERATURE c \<and> \<not> mean < SENSOR_NO_POWER_TEMPERATURE c \<longrightarrow>
          sensor_code (sensor ((sensor_callback c adc ^^ n) s)) = SENSOR_READING_COMPLETE c
          \<and> sensor_state (sensor ((sensor_callback c adc ^^ n) s)) = SENSOR_HAS_DATA)"
proof -
  have before: "sensor_code (sensor ((sensor_callback c adc ^^ j) s)) \<noteq> SENSOR_READING_COMPLETE c
              \<and> sensor_state (sensor ((sensor_callback c adc ^^ j) s)) = sensor_state (sensor s)
              \<and> sensor_temperature (sensor ((sensor_callback c adc ^^ j) s))
                  = sensor_temperature (sensor s)" if "j < n" for j
  proof (cases "j = 0")
    case True
    then show ?thesis using act by (simp add: sensor_active_def)
  next
    case False
    then have "(sensor_callback c adc ^^ j) s = partial_reading c adc s j"
      using partial_reading_reached [OF act ne z n(1) n(3) r st] that by simp
    then show ?thesis using ne by (simp add: partial_reading_def)
  qed
  from reading_completes [OF act ne z n r st mean] before
  show ?thesis by (simp add: classify_code_def classify_state_def)
qed

text \<open>
  Once a reading is marked complete, \<open>sensor_start_temperature_reading\<close> does not start
  another one: the calls that follow change nothing.
\<close>

lemma complete_reading_blocks_restart:
  "sensor_code (sensor s) = SENSOR_READING_COMPLETE c \<Longrightarrow>
     (sensor_callback c adc ^^ j) (sensor_start_temperature_reading s)
       = sensor_start_temperature_reading s"
  by (induction j) (simp_all add: sensor_callback_def sensor_start_temperature_reading_def)

text \<open>
  Claim C5, the code at the failing input. The first reading after initialisation
  completes in two calls (\<^verbatim>\<open>SENSOR_SAMPLES_PER_READING\<close> is 2 here) with the mean 47 of
  its samples. After \<open>sensor_start_temperature_reading\<close> the next two calls take no
  sample and change nothing: the code is still \<^verbatim>\<open>SENSOR_READING_COMPLETE\<close>, on which
  \<open>sensor_callback\<close> returns at once.
\<close>

theorem second_reading_not_taken:
  "sensor_state (sensor first_reading_state) = SENSOR_HAS_DATA
   \<and> sensor_code (sensor first_reading_state) = SENSOR_READING_COMPLETE test_config
   \<and> sensor_temperature (sensor first_reading_state) = 47
   \<and> adc_count first_reading_state = 2
   \<and> sensor_callback test_config two_readings_adc
        (sensor_callback test_config two_readings_adc
           (sensor_start_temperature_reading first_reading_state))
      = sensor_start_temperature_reading first_reading_state
   \<and> sensor_temperature (sensor (sensor_start_temperature_reading first_reading_state)) = 47
   \<and> adc_count (sensor_start_temperature_reading first_reading_state) = 2"
  by (simp add: first_reading_state_def two_readings_adc_def tc_eval)

subsection \<open>Sensor faults and the heater\<close>

lemma sensor_fault_state_eval:
  "sensor_state (sensor sensor_fault_state) = SENSOR_SHUTDOWN
   \<and> sensor_code (sensor sensor_fault_state) = SENSOR_READING_FAILED_BAD_READINGS test_config
   \<and> heater_state (heater sensor_fault_state) = HEATER_HEATING
   \<and> heater_code (heater sensor_fault_state) = 0
   \<and> OCR2B (device sensor_fault_state) = 255
   \<and> adc_count sensor_fault_state = 5"
  by (simp add: sensor_fault_state_def glitch_adc_def tc_eval)

lemma tick_callback_sensor_dead:
  "sensor_state (sensor s) = SENSOR_SHUTDOWN \<Longrightarrow>
     heater (snd (tick_callback c adc s)) = heater s
     \<and> sensor_state (sensor (snd (tick_callback c adc s))) = SENSOR_SHUTDOWN
     \<and> OCR2B (device (snd (tick_callback c adc s))) = OCR2B (device s)"
  using heater_callback_no_data [of "(sensor_callback c adc (s\<lparr>device := (device s)\<lparr>tick_flag := False\<rparr>\<rparr>))\<lparr>device := (device (sensor_callback c adc (s\<lparr>device := (device s)\<lparr>tick_flag := False\<rparr>\<rparr>)))\<lparr>tick_100ms_count := 10\<rparr>\<rparr>" c]
  by (simp add: tick_callback_def tick_10ms_def tick_100ms_def tick_1sec_def Let_def
      sensor_callback_inactive)

lemma event_sensor_dead:
  "sensor_state (sensor s) = SENSOR_SHUTDOWN \<Longrightarrow>
     heater (main_loop_event c adc kinen_idle ev s) = heater s
     \<and> sensor_state (sensor (main_loop_event c adc kinen_idle ev s)) = SENSOR_SHUTDOWN
     \<and> OCR2B (device (main_loop_event c adc kinen_idle ev s)) = OCR2B (device s)"
  using tick_callback_sensor_dead [of s c adc]
  by (cases ev) (simp_all add: tick_isr_def controller_def kinen_idle_def split_beta Let_def)

lemma events_sensor_dead:
  "sensor_state (sensor s) = SENSOR_SHUTDOWN \<Longrightarrow>
     heater (fold (main_loop_event c adc kinen_idle) evs s) = heater s
     \<and> sensor_state (sensor (fold (main_loop_event c adc kinen_idle) evs s)) = SENSOR_SHUTDOWN
     \<and> OCR2B (device (fold (main_loop_event c adc kinen_idle) evs s)) = OCR2B (device s)"
proof (induction evs arbitrary: s)
  case Nil
  then show ?case by simp
next
  case (Cons ev evs)
  from event_sensor_dead [OF Cons.prems, of c adc ev]
  have st: "heater (main_loop_event c adc kinen_idle ev s) = heater s"
    "sensor_state (sensor (main_loop_event c adc kinen_idle ev s)) = SENSOR_SHUTDOWN"
    "OCR2B (device (main_loop_event c adc kinen_idle ev s)) = OCR2B (device s)"
    by simp_all
  from Cons.IH [OF st(2)] st show ?case by simp
qed

text \<open>
  Claim C2, the code at the failing input. The sensor exhausts its retries on the second
  sample and shuts down with the bad-readings code. In every run of the main loop from
  there the heater is still \<open>HEATER_HEATING\<close> with code 0: \<open>heater_callback\<close> returns as long
  as the sensor has no data, and a sensor that is shut down never has.
\<close>

theorem heater_ignores_sensor_fault:
  "sensor_state (sensor sensor_fault_state) = SENSOR_SHUTDOWN
   \<and> sensor_code (sensor sensor_fault_state) = SENSOR_READING_FAILED_BAD_READINGS test_config
   \<and> (\<forall>evs. heater_state (heater (fold (main_loop_event test_config glitch_adc kinen_idle) evs
                 sensor_fault_state)) = HEATER_HEATING
           \<and> heater_code (heater (fold (main_loop_event test_config glitch_adc kinen_idle) evs
                 sensor_fault_state)) = 0)"
  using events_sensor_dead [of sensor_fault_state test_config glitch_adc]
  by (simp add: sensor_fault_state_eval)

end
